theory Spec2Isabelle
  imports Main "HOL-Library.Multiset"
begin

section \<open>The JavaScript Date object, as the tracking components use it\<close>

text \<open>
  The components build every \<open>Date\<close> at local midnight (\<open>new Date(year, month - 1, day)\<close>,
  \<open>today.setHours(0, 0, 0, 0)\<close>) and read it back with the local accessors
  \<open>getFullYear\<close>, \<open>getMonth\<close> (0 to 11) and \<open>getDate\<close> only. A \<open>Date\<close> is therefore
  modelled by its local calendar fields; years are unbounded integers (the limit of
  \<open>\<plusminus>8.64e15\<close> ms of the time value is not modelled). An Invalid Date is \<open>None\<close>.
\<close>

datatype date = Date (getFullYear: int) (getMonth: int) (getDate: int)

definition isLeapYear :: "int \<Rightarrow> bool" where
  "isLeapYear y = (y mod 4 = 0 \<and> (y mod 100 \<noteq> 0 \<or> y mod 400 = 0))"

definition daysInMonth :: "int \<Rightarrow> int \<Rightarrow> int" where
  "daysInMonth y m =
     (if m = 1 then (if isLeapYear y then 29 else 28)
      else if m = 3 \<or> m = 5 \<or> m = 8 \<or> m = 10 then 30 else 31)"

definition prevMonth :: "int \<times> int \<Rightarrow> int \<times> int" where
  "prevMonth ym = (case ym of (y, m) \<Rightarrow> if m = 0 then (y - 1, 11) else (y, m - 1))"

definition nextMonth :: "int \<times> int \<Rightarrow> int \<times> int" where
  "nextMonth ym = (case ym of (y, m) \<Rightarrow> if m = 11 then (y + 1, 0) else (y, m + 1))"

text \<open>
  ECMAScript \<open>MakeDay(year, month, date)\<close>: the month carries into the year, and the day
  number counts on from the first of that month, so a day past the end of the month (or
  before its first) carries into the following (preceding) months.
\<close>

function normDay :: "int \<Rightarrow> int \<Rightarrow> int \<Rightarrow> date" where
  "normDay y m d =
     (if d < 1 then
        (case prevMonth (y, m) of (y', m') \<Rightarrow> normDay y' m' (d + daysInMonth y' m'))
      else if daysInMonth y m < d then
        (case nextMonth (y, m) of (y', m') \<Rightarrow> normDay y' m' (d - daysInMonth y m))
      else Date y m d)"
  by pat_completeness auto
termination
  by (relation "measure (\<lambda>(y, m, d). if d < 1 then nat (1 - d) + 32 else nat d)")
     (auto simp: daysInMonth_def prevMonth_def nextMonth_def split: if_splits)

declare normDay.simps [simp del]

definition MakeDay :: "int \<Rightarrow> int \<Rightarrow> int \<Rightarrow> date" where
  "MakeDay y m d = normDay (y + m div 12) (m mod 12) d"

text \<open>\<open>new Date(year, monthIndex, day)\<close>: a year from 0 to 99 means 1900 + year.\<close>

definition newDate :: "int \<Rightarrow> int \<Rightarrow> int \<Rightarrow> date" where
  "newDate year monthIndex day =
     MakeDay (if 0 \<le> year \<and> year \<le> 99 then 1900 + year else year) monthIndex day"

text \<open>\<open>date.setFullYear(y)\<close> and \<open>date.setMonth(m)\<close> keep the other two fields and renormalise.\<close>

definition setFullYear :: "date \<Rightarrow> int \<Rightarrow> date" where
  "setFullYear dt y = MakeDay y (getMonth dt) (getDate dt)"

definition setMonth :: "date \<Rightarrow> int \<Rightarrow> date" where
  "setMonth dt m = MakeDay (getFullYear dt) m (getDate dt)"

text \<open>Comparison of two Dates (\<open><\<close>, \<open><=\<close> on the time values of two local midnights).\<close>

definition date_lt :: "date \<Rightarrow> date \<Rightarrow> bool" where
  "date_lt a b =
     (getFullYear a < getFullYear b \<or>
      (getFullYear a = getFullYear b \<and>
        (getMonth a < getMonth b \<or> (getMonth a = getMonth b \<and> getDate a < getDate b))))"

definition date_le :: "date \<Rightarrow> date \<Rightarrow> bool" where
  "date_le a b = (date_lt a b \<or> a = b)"

text \<open>A Date object always holds a real calendar day.\<close>

definition valid_date :: "date \<Rightarrow> bool" where
  "valid_date dt =
     (0 \<le> getMonth dt \<and> getMonth dt \<le> 11 \<and>
      1 \<le> getDate dt \<and> getDate dt \<le> daysInMonth (getFullYear dt) (getMonth dt))"

section \<open>Date strings\<close>

text \<open>
  \<open>String(n)\<close> of an integer: its decimal digits, with a leading minus sign when negative.
\<close>

definition digitChar :: "nat \<Rightarrow> char" where
  "digitChar n = ''0123456789'' ! n"

fun digits :: "nat \<Rightarrow> string" where
  "digits n = (if n < 10 then [digitChar n] else digits (n div 10) @ [digitChar (n mod 10)])"

declare digits.simps [simp del]

definition String :: "int \<Rightarrow> string" where
  "String i = (if i < 0 then CHR ''-'' # digits (nat (- i)) else digits (nat i))"

text \<open>\<open>s.padStart(2, '0')\<close>.\<close>

definition padStart2 :: "string \<Rightarrow> string" where
  "padStart2 s = replicate (2 - length s) CHR ''0'' @ s"

text \<open>\<open>s.split('-')\<close>: the pieces between the separators, always at least one piece.\<close>

fun split :: "char \<Rightarrow> string \<Rightarrow> string list" where
  "split sep [] = [[]]"
| "split sep (c # cs) =
     (if c = sep then [] # split sep cs
      else (case split sep cs of p # ps \<Rightarrow> (c # p) # ps | [] \<Rightarrow> [[c]]))"

text \<open>
  \<open>Number(s)\<close> on the pieces of a date string: a run of decimal digits is its value, the
  empty string is 0. Every other string is taken to be \<open>NaN\<close> (\<open>None\<close>); the further
  numeric literals that \<open>Number\<close> accepts (signs, fractions, exponents, hexadecimal,
  surrounding blanks) do not occur in the strings of a date input or a \<open>date\<close> column.
\<close>

definition isDigit :: "char \<Rightarrow> bool" where
  "isDigit c = ((48::nat) \<le> of_char c \<and> of_char c \<le> (57::nat))"

definition digitsValue :: "string \<Rightarrow> nat" where
  "digitsValue s = foldl (\<lambda>acc c. 10 * acc + (of_char c - 48)) (0::nat) s"

definition Number :: "string \<Rightarrow> int option" where
  "Number s = (if list_all isDigit s then Some (int (digitsValue s)) else None)"

text \<open>
  \<^verbatim>\<open>const [year, month, day] = dateString.split('-').map(Number);
  return new Date(year, month - 1, day);\<close>
  A missing piece is \<open>undefined\<close> and a piece that is not a number is \<open>NaN\<close>; either one
  makes the result an Invalid Date.
\<close>

definition parseDateString :: "string \<Rightarrow> date option" where
  "parseDateString dateString =
     (case map Number (split CHR ''-'' dateString) of
        Some year # Some month # Some day # _ \<Rightarrow> Some (newDate year (month - 1) day)
      | _ \<Rightarrow> None)"

text \<open>
  \<^verbatim>\<open>const year = date.getFullYear();
  const month = String(date.getMonth() + 1).padStart(2, '0');
  const day = String(date.getDate()).padStart(2, '0');
  return `${year}-${month}-${day}`;\<close>
\<close>

definition formatDateString :: "date \<Rightarrow> string" where
  "formatDateString dt =
     String (getFullYear dt) @ ''-'' @ padStart2 (String (getMonth dt + 1)) @ ''-'' @
     padStart2 (String (getDate dt))"

section \<open>The recurrence computations of VaccineTab and DewormingTab\<close>

text \<open>A row of the \<open>reminders\<close> table, with the columns the two components write.\<close>

record reminder =
  user_id :: string
  pet_id :: string
  title :: string
  description :: string
  reminder_date :: string
  type :: string

text \<open>
  The catch-up loop of both components,
  \<^verbatim>\<open>while (nextReminderDate < today) { nextReminderDate.set...(... + frequency); }\<close>
  with the body of the loop as \<open>step\<close>. The loop has no bound of its own, so it is a partial
  function: \<open>None\<close> means that it does not return.
\<close>

partial_function (option) catchUp :: "(date \<Rightarrow> date) \<Rightarrow> date \<Rightarrow> date \<Rightarrow> date option" where
  "catchUp step today nextReminderDate =
     (if date_lt nextReminderDate today then catchUp step today (step nextReminderDate)
      else Some nextReminderDate)"

text \<open>\<open>d.setFullYear(d.getFullYear() + frequencyYears)\<close>, the step of the vaccine loops.\<close>

definition addYears :: "int \<Rightarrow> date \<Rightarrow> date" where
  "addYears frequencyYears d = setFullYear d (getFullYear d + frequencyYears)"

text \<open>The reminder that \<open>createReminders\<close> pushes for one due date.\<close>

definition vaccineReminder :: "string \<Rightarrow> string \<Rightarrow> string \<Rightarrow> date \<Rightarrow> reminder" where
  "vaccineReminder petId userId vaccineType currentReminderDate =
     \<lparr> user_id = userId, pet_id = petId,
       title = ''Vacuna: '' @ vaccineType,
       description = ''Recordatorio para aplicar la vacuna '' @ vaccineType,
       reminder_date = formatDateString currentReminderDate,
       type = ''vaccination'' \<rparr>"

text \<open>
  \<^verbatim>\<open>while (currentReminderDate <= maxDate) {
    remindersToCreate.push({...});
    currentReminderDate = new Date(currentReminderDate);
    currentReminderDate.setFullYear(currentReminderDate.getFullYear() + frequencyYears);
  }\<close>
\<close>

partial_function (option) pushLoop ::
  "string \<Rightarrow> string \<Rightarrow> string \<Rightarrow> int \<Rightarrow> date \<Rightarrow> date \<Rightarrow> reminder list \<Rightarrow> reminder list option"
where
  "pushLoop petId userId vaccineType frequencyYears maxDate currentReminderDate remindersToCreate =
     (if date_le currentReminderDate maxDate then
        pushLoop petId userId vaccineType frequencyYears maxDate
          (addYears frequencyYears currentReminderDate)
          (remindersToCreate @ [vaccineReminder petId userId vaccineType currentReminderDate])
      else Some remindersToCreate)"

text \<open>
  The body of \<open>createReminders\<close> up to the insert: the batch \<open>remindersToCreate\<close>, for
  \<open>today\<close> the local midnight of the current day. With an Invalid Date every comparison
  is false, so neither loop runs and the batch is empty.
\<close>

definition remindersToCreate ::
  "string \<Rightarrow> string \<Rightarrow> string \<Rightarrow> string \<Rightarrow> int \<Rightarrow> date \<Rightarrow> reminder list option"
where
  "remindersToCreate petId userId vaccineType vaccineDate frequencyYears today =
     (case parseDateString vaccineDate of
        None \<Rightarrow> Some []
      | Some vaccineDateObj \<Rightarrow>
          (case (if date_lt vaccineDateObj today
                 then catchUp (addYears frequencyYears) today (addYears frequencyYears vaccineDateObj)
                 else Some (addYears frequencyYears vaccineDateObj)) of
             None \<Rightarrow> None
           | Some nextReminderDate \<Rightarrow>
               pushLoop petId userId vaccineType frequencyYears (addYears 10 today)
                 nextReminderDate []))"

text \<open>
  The step of the deworming loop:
  \<^verbatim>\<open>if (frequencyType === 'months') { d.setMonth(d.getMonth() + frequencyValue); }
  else if (frequencyType === 'year') { d.setFullYear(d.getFullYear() + frequencyValue); }\<close>
\<close>

definition dewormingStep :: "string \<Rightarrow> int \<Rightarrow> date \<Rightarrow> date" where
  "dewormingStep frequencyType frequencyValue d =
     (if frequencyType = ''months'' then setMonth d (getMonth d + frequencyValue)
      else if frequencyType = ''year'' then setFullYear d (getFullYear d + frequencyValue)
      else d)"

text \<open>The word \<open>Desparasitaci\'on\<close> and its lower-case form, in UTF-8.\<close>

definition Desparasitacion :: string where
  "Desparasitacion = ''Desparasitaci'' @ [char_of (195::nat), char_of (179::nat)] @ ''n''"

definition desparasitacion :: string where
  "desparasitacion = ''desparasitaci'' @ [char_of (195::nat), char_of (179::nat)] @ ''n''"

definition dewormingReminder :: "string \<Rightarrow> string \<Rightarrow> string \<Rightarrow> date \<Rightarrow> reminder" where
  "dewormingReminder petId userId dewormingType nextReminderDate =
     \<lparr> user_id = userId, pet_id = petId,
       title = Desparasitacion @ '': '' @ dewormingType,
       description = ''Recordatorio para aplicar la '' @ desparasitacion @ '' '' @ dewormingType,
       reminder_date = formatDateString nextReminderDate,
       type = ''deworming'' \<rparr>"

text \<open>
  The body of \<open>createNextReminder\<close> up to the insert: the rows it inserts, one or none.
\<close>

definition nextReminderToCreate ::
  "string \<Rightarrow> string \<Rightarrow> string \<Rightarrow> string \<Rightarrow> string \<Rightarrow> int \<Rightarrow> date \<Rightarrow> reminder list option"
where
  "nextReminderToCreate petId userId dewormingType dewormingDate frequencyType frequencyValue today =
     (case parseDateString dewormingDate of
        None \<Rightarrow> Some []
      | Some dewormingDateObj \<Rightarrow>
          (case (if date_lt dewormingDateObj today
                 then catchUp (dewormingStep frequencyType frequencyValue) today
                        (dewormingStep frequencyType frequencyValue dewormingDateObj)
                 else Some (dewormingStep frequencyType frequencyValue dewormingDateObj)) of
             None \<Rightarrow> None
           | Some nextReminderDate \<Rightarrow>
               Some (if date_le nextReminderDate (addYears 10 today)
                     then [dewormingReminder petId userId dewormingType nextReminderDate]
                     else [])))"

section \<open>The reminder store and the handlers of the two components\<close>

text \<open>
  The tables the handlers touch. A row carries the columns the components write and read;
  \<open>created_at\<close> is set by the store and never read by these handlers.
\<close>

record vaccination =
  vaccination_id :: string
  vaccination_pet_id :: string
  vaccination_user_id :: string
  vaccine_type :: string
  vaccination_date :: string
  vaccination_notes :: "string option"
  create_reminder :: bool
  reminder_frequency_years :: "int option"

record deworming =
  deworming_id :: string
  deworming_pet_id :: string
  deworming_user_id :: string
  deworming_type :: string
  deworming_date :: string
  deworming_notes :: "string option"
  deworming_create_reminder :: bool
  reminder_frequency_type :: "string option"
  reminder_frequency_value :: "int option"

record database =
  reminders :: "reminder list"
  vaccinations :: "vaccination list"
  dewormings :: "deworming list"

datatype error = NotAuthenticated | StoreError

text \<open>What the handler shows when it ends: its last toast.\<close>

datatype toast = MissingInfo | Success | Failure

text \<open>
  The store's \<open>LIKE\<close>: \<open>%\<close> matches any run of characters, \<open>_\<close> any one character, every
  other character itself, and upper and lower case are different characters. The
  escape character of \<open>LIKE\<close> is not modelled.
\<close>

fun like :: "string \<Rightarrow> string \<Rightarrow> bool" where
  "like [] [] = True"
| "like (c # cs) [] = False"
| "like [] (p # ps) = (p = CHR ''%'' \<and> like [] ps)"
| "like (c # cs) (p # ps) =
     (if p = CHR ''%'' then like (c # cs) ps \<or> like cs (p # ps)
      else (p = CHR ''_'' \<or> p = c) \<and> like cs ps)"

declare like.simps [simp del]

text \<open>
  The requests to the store. The store of the model is the three lists themselves and
  answers every request without an error; the handlers still take both answers apart, as
  the source does.
  \<^verbatim>\<open>supabase.from("reminders").delete().eq("pet_id", petId)
    .like("title", titlePattern).like("description", descriptionPattern)\<close>
\<close>

definition deleteReminders :: "string \<Rightarrow> string \<Rightarrow> string \<Rightarrow> database \<Rightarrow> error + database" where
  "deleteReminders petId titlePattern descriptionPattern db =
     Inr (db\<lparr>reminders :=
       filter (\<lambda>r. \<not> (pet_id r = petId \<and> like (title r) titlePattern \<and>
                        like (description r) descriptionPattern))
         (reminders db)\<rparr>)"

definition insertReminders :: "reminder list \<Rightarrow> database \<Rightarrow> error + database" where
  "insertReminders rows db = Inr (db\<lparr>reminders := reminders db @ rows\<rparr>)"

definition insertVaccination :: "vaccination \<Rightarrow> database \<Rightarrow> error + database" where
  "insertVaccination row db = Inr (db\<lparr>vaccinations := vaccinations db @ [row]\<rparr>)"

definition updateVaccination ::
  "string \<Rightarrow> (vaccination \<Rightarrow> vaccination) \<Rightarrow> database \<Rightarrow> error + database" where
  "updateVaccination rowId patch db =
     Inr (db\<lparr>vaccinations :=
       map (\<lambda>v. if vaccination_id v = rowId then patch v else v) (vaccinations db)\<rparr>)"

definition deleteVaccination :: "string \<Rightarrow> database \<Rightarrow> error + database" where
  "deleteVaccination rowId db =
     Inr (db\<lparr>vaccinations := filter (\<lambda>v. vaccination_id v \<noteq> rowId) (vaccinations db)\<rparr>)"

definition insertDeworming :: "deworming \<Rightarrow> database \<Rightarrow> error + database" where
  "insertDeworming row db = Inr (db\<lparr>dewormings := dewormings db @ [row]\<rparr>)"

definition updateDeworming ::
  "string \<Rightarrow> (deworming \<Rightarrow> deworming) \<Rightarrow> database \<Rightarrow> error + database" where
  "updateDeworming rowId patch db =
     Inr (db\<lparr>dewormings :=
       map (\<lambda>v. if deworming_id v = rowId then patch v else v) (dewormings db)\<rparr>)"

definition deleteDeworming :: "string \<Rightarrow> database \<Rightarrow> error + database" where
  "deleteDeworming rowId db =
     Inr (db\<lparr>dewormings := filter (\<lambda>v. deworming_id v \<noteq> rowId) (dewormings db)\<rparr>)"

text \<open>
  \<open>createReminders\<close> and \<open>createNextReminder\<close> as a whole: the batch, then the insert (for
  the vaccine only when the batch is not empty), whose error is thrown on. \<open>None\<close>: the
  call does not return.
\<close>

definition createReminders ::
  "string \<Rightarrow> string \<Rightarrow> string \<Rightarrow> string \<Rightarrow> int \<Rightarrow> date \<Rightarrow> database \<Rightarrow> (error + database) option"
where
  "createReminders petId userId vaccineType vaccineDate frequencyYears today db =
     (case remindersToCreate petId userId vaccineType vaccineDate frequencyYears today of
        None \<Rightarrow> None
      | Some batch \<Rightarrow> Some (if batch \<noteq> [] then insertReminders batch db else Inr db))"

definition createNextReminder ::
  "string \<Rightarrow> string \<Rightarrow> string \<Rightarrow> string \<Rightarrow> string \<Rightarrow> int \<Rightarrow> date \<Rightarrow> database \<Rightarrow>
   (error + database) option"
where
  "createNextReminder petId userId dewormingType dewormingDate frequencyType frequencyValue today db =
     (case nextReminderToCreate petId userId dewormingType dewormingDate frequencyType
             frequencyValue today of
        None \<Rightarrow> None
      | Some [] \<Rightarrow> Some (Inr db)
      | Some rows \<Rightarrow> Some (insertReminders rows db))"

text \<open>
  \<open>parseInt(s)\<close> on the values of the frequency selects: an optional sign and the longest
  run of decimal digits that follows; \<open>NaN\<close> (\<open>None\<close>) when there is no digit. Leading blanks
  and the \<open>0x\<close> prefix are not modelled.
\<close>

definition parseInt :: "string \<Rightarrow> int option" where
  "parseInt s =
     (let (neg, rest) = (case s of c # cs \<Rightarrow> if c = CHR ''-'' then (True, cs)
                                            else if c = CHR ''+'' then (False, cs)
                                            else (False, s)
                         | [] \<Rightarrow> (False, s));
          ds = takeWhile isDigit rest
      in if ds = [] then None
         else Some (if neg then - int (digitsValue ds) else int (digitsValue ds)))"

text \<open>A number is truthy unless it is 0, \<open>NaN\<close> or \<open>null\<close>.\<close>

definition truthy :: "int option \<Rightarrow> bool" where
  "truthy n = (case n of None \<Rightarrow> False | Some i \<Rightarrow> i \<noteq> 0)"

text \<open>
  The form state of VaccineTab: the state variables \<open>vaccineType\<close>, \<open>date\<close>, \<open>notes\<close>,
  \<open>createReminder\<close> and \<open>reminderFrequency\<close>.
\<close>

record vaccineForm =
  formVaccineType :: string
  formDate :: string
  formNotes :: string
  formCreateReminder :: bool
  formReminderFrequency :: string

text \<open>
  The answer of a delete of reminders: \<^verbatim>\<open>if (deleteError) console.error(...)\<close>, and the
  handler goes on, with the store as the request left it.
\<close>

definition logged :: "database \<Rightarrow> error + database \<Rightarrow> database" where
  "logged db answer = (case answer of Inl deleteError \<Rightarrow> db | Inr db' \<Rightarrow> db')"

text \<open>
  \<open>VaccineTab.handleSubmit\<close>. \<open>user\<close> is the answer of \<open>supabase.auth.getUser()\<close>, \<open>newId\<close>
  the key the store gives the new row. An error thrown inside the \<open>try\<close> ends the handler
  with the failure toast and leaves what was written before it.
\<close>

definition VaccineTab_handleSubmit ::
  "string \<Rightarrow> string option \<Rightarrow> vaccineForm \<Rightarrow> date \<Rightarrow> string \<Rightarrow> database \<Rightarrow> (toast \<times> database) option"
where
  "VaccineTab_handleSubmit selectedPetId user form today newId db =
     (if selectedPetId = [] \<or> formVaccineType form = [] \<or> formDate form = [] then Some (MissingInfo, db)
      else case user of
        None \<Rightarrow> Some (Failure, db)
      | Some userId \<Rightarrow>
          (let frequencyYears = (if formCreateReminder form then parseInt (formReminderFrequency form) else None)
           in case insertVaccination
                \<lparr> vaccination_id = newId, vaccination_pet_id = selectedPetId,
                  vaccination_user_id = userId, vaccine_type = formVaccineType form,
                  vaccination_date = formDate form,
                  vaccination_notes = (if formNotes form = [] then None else Some (formNotes form)),
                  create_reminder = formCreateReminder form,
                  reminder_frequency_years = frequencyYears \<rparr> db of
                Inl e \<Rightarrow> Some (Failure, db)
              | Inr db1 \<Rightarrow>
                  if formCreateReminder form \<and> truthy frequencyYears then
                    (case createReminders selectedPetId userId (formVaccineType form) (formDate form)
                            (the frequencyYears) today db1 of
                       None \<Rightarrow> None
                     | Some (Inl e) \<Rightarrow> Some (Failure, db1)
                     | Some (Inr db2) \<Rightarrow> Some (Success, db2))
                  else Some (Success, db1)))"

text \<open>
  \<open>VaccineTab.handleUpdate\<close>, for the row \<open>editingVaccine\<close> being edited: the reminders of
  the pet that match the row's previous type are deleted (an error of that delete is only
  logged), the row is updated, and the reminders are created again from the form.
\<close>

definition VaccineTab_handleUpdate ::
  "string \<Rightarrow> string option \<Rightarrow> vaccination option \<Rightarrow> vaccineForm \<Rightarrow> date \<Rightarrow> database \<Rightarrow>
   (toast \<times> database) option"
where
  "VaccineTab_handleUpdate selectedPetId user editingVaccine form today db =
     (case editingVaccine of
        None \<Rightarrow> Some (MissingInfo, db)
      | Some editing \<Rightarrow>
          if formVaccineType form = [] \<or> formDate form = [] then Some (MissingInfo, db)
          else (case user of
            None \<Rightarrow> Some (Failure, db)
          | Some userId \<Rightarrow>
              (let db1 = logged db (deleteReminders selectedPetId
                                      (''%'' @ vaccine_type editing @ ''%'') ''%Vacuna%'' db);
                   frequencyYears =
                     (if formCreateReminder form then parseInt (formReminderFrequency form) else None)
               in case updateVaccination (vaccination_id editing)
                    (\<lambda>v. v\<lparr> vaccine_type := formVaccineType form, vaccination_date := formDate form,
                            vaccination_notes := (if formNotes form = [] then None else Some (formNotes form)),
                            create_reminder := formCreateReminder form,
                            reminder_frequency_years := frequencyYears \<rparr>) db1 of
                    Inl e \<Rightarrow> Some (Failure, db1)
                  | Inr db2 \<Rightarrow>
                      if formCreateReminder form \<and> truthy frequencyYears then
                        (case createReminders selectedPetId userId (formVaccineType form) (formDate form)
                                (the frequencyYears) today db2 of
                           None \<Rightarrow> None
                         | Some (Inl e) \<Rightarrow> Some (Failure, db2)
                         | Some (Inr db3) \<Rightarrow> Some (Success, db3))
                      else Some (Success, db2))))"

text \<open>\<open>VaccineTab.handleDelete(vaccineId, vaccineType)\<close>.\<close>

definition VaccineTab_handleDelete :: "string \<Rightarrow> string \<Rightarrow> string \<Rightarrow> database \<Rightarrow> toast \<times> database" where
  "VaccineTab_handleDelete selectedPetId vaccineId vaccineType db =
     (let db1 = logged db (deleteReminders selectedPetId (''%'' @ vaccineType @ ''%'')
                             ''%Vacuna%'' db)
      in case deleteVaccination vaccineId db1 of
           Inl e \<Rightarrow> (Failure, db1)
         | Inr db2 \<Rightarrow> (Success, db2))"

text \<open>
  The form state of DewormingTab: its state variables \<open>dewormingType\<close>, \<open>date\<close>, \<open>notes\<close>,
  \<open>createReminder\<close> and \<open>reminderFrequency\<close> (a select value such as \<open>1-month\<close>).
\<close>

record dewormingForm =
  formDewormingType :: string
  formDewormingDate :: string
  formDewormingNotes :: string
  formDewormingCreateReminder :: bool
  formDewormingFrequency :: string

text \<open>
  \<^verbatim>\<open>const [value, type] = reminderFrequency.split('-');
  frequencyValue = parseInt(value);
  frequencyType = type === 'month' ? 'months' : 'year';\<close>
\<close>

definition frequencyOf :: "string \<Rightarrow> string \<times> int option" where
  "frequencyOf reminderFrequency =
     (case split CHR ''-'' reminderFrequency of
        [] \<Rightarrow> (''year'', None)
      | [v] \<Rightarrow> (''year'', parseInt v)
      | v # t # _ \<Rightarrow> (if t = ''month'' then ''months'' else ''year'', parseInt v))"

definition DewormingTab_handleSubmit ::
  "string \<Rightarrow> string option \<Rightarrow> dewormingForm \<Rightarrow> date \<Rightarrow> string \<Rightarrow> database \<Rightarrow>
   (toast \<times> database) option"
where
  "DewormingTab_handleSubmit selectedPetId user form today newId db =
     (if selectedPetId = [] \<or> formDewormingType form = [] \<or> formDewormingDate form = []
      then Some (MissingInfo, db)
      else (case user of
        None \<Rightarrow> Some (Failure, db)
      | Some userId \<Rightarrow>
          (let frequencyType = (if formDewormingCreateReminder form
                                then Some (fst (frequencyOf (formDewormingFrequency form))) else None);
               frequencyValue = (if formDewormingCreateReminder form
                                 then snd (frequencyOf (formDewormingFrequency form)) else None)
           in (case insertDeworming
                \<lparr> deworming_id = newId, deworming_pet_id = selectedPetId,
                  deworming_user_id = userId, deworming_type = formDewormingType form,
                  deworming_date = formDewormingDate form,
                  deworming_notes = (if formDewormingNotes form = [] then None
                                     else Some (formDewormingNotes form)),
                  deworming_create_reminder = formDewormingCreateReminder form,
                  reminder_frequency_type = frequencyType,
                  reminder_frequency_value = frequencyValue \<rparr> db of
                Inl e \<Rightarrow> Some (Failure, db)
              | Inr db1 \<Rightarrow>
                  if formDewormingCreateReminder form \<and> frequencyType \<noteq> None \<and>
                     frequencyType \<noteq> Some [] \<and> truthy frequencyValue then
                    (case createNextReminder selectedPetId userId (formDewormingType form)
                            (formDewormingDate form) (the frequencyType) (the frequencyValue)
                            today db1 of
                       None \<Rightarrow> None
                     | Some (Inl e) \<Rightarrow> Some (Failure, db1)
                     | Some (Inr db2) \<Rightarrow> Some (Success, db2))
                  else Some (Success, db1)))))"

definition DewormingTab_handleUpdate ::
  "string \<Rightarrow> string option \<Rightarrow> deworming option \<Rightarrow> dewormingForm \<Rightarrow> date \<Rightarrow> database \<Rightarrow>
   (toast \<times> database) option"
where
  "DewormingTab_handleUpdate selectedPetId user editingDeworming form today db =
     (case editingDeworming of
        None \<Rightarrow> Some (MissingInfo, db)
      | Some editing \<Rightarrow>
          if formDewormingType form = [] \<or> formDewormingDate form = [] then Some (MissingInfo, db)
          else (case user of
            None \<Rightarrow> Some (Failure, db)
          | Some userId \<Rightarrow>
              (let db1 = logged db (deleteReminders selectedPetId
                                      (''%'' @ deworming_type editing @ ''%'')
                                      (''%'' @ Desparasitacion @ ''%'') db);
                   frequencyType = (if formDewormingCreateReminder form
                                    then Some (fst (frequencyOf (formDewormingFrequency form)))
                                    else None);
                   frequencyValue = (if formDewormingCreateReminder form
                                     then snd (frequencyOf (formDewormingFrequency form)) else None)
               in (case updateDeworming (deworming_id editing)
                    (\<lambda>v. v\<lparr> deworming_type := formDewormingType form,
                            deworming_date := formDewormingDate form,
                            deworming_notes := (if formDewormingNotes form = [] then None
                                                else Some (formDewormingNotes form)),
                            deworming_create_reminder := formDewormingCreateReminder form,
                            reminder_frequency_type := frequencyType,
                            reminder_frequency_value := frequencyValue \<rparr>) db1 of
                    Inl e \<Rightarrow> Some (Failure, db1)
                  | Inr db2 \<Rightarrow>
                      if formDewormingCreateReminder form \<and> frequencyType \<noteq> None \<and>
                         frequencyType \<noteq> Some [] \<and> truthy frequencyValue then
                        (case createNextReminder selectedPetId userId (formDewormingType form)
                                (formDewormingDate form) (the frequencyType) (the frequencyValue)
                                today db2 of
                           None \<Rightarrow> None
                         | Some (Inl e) \<Rightarrow> Some (Failure, db2)
                         | Some (Inr db3) \<Rightarrow> Some (Success, db3))
                      else Some (Success, db2)))))"

definition DewormingTab_handleDelete ::
  "string \<Rightarrow> string \<Rightarrow> string \<Rightarrow> database \<Rightarrow> toast \<times> database" where
  "DewormingTab_handleDelete selectedPetId dewormingId dewormingType db =
     (let db1 = logged db (deleteReminders selectedPetId (''%'' @ dewormingType @ ''%'')
                             (''%'' @ Desparasitacion @ ''%'') db)
      in case deleteDeworming dewormingId db1 of
           Inl e \<Rightarrow> (Failure, db1)
         | Inr db2 \<Rightarrow> (Success, db2))"

text \<open>A store with no rows, for the scenarios.\<close>

definition emptyDatabase :: database where
  "emptyDatabase = \<lparr> reminders = [], vaccinations = [], dewormings = [] \<rparr>"

section \<open>TimelineTab and WeightTab: merging and sorting the records\<close>

text \<open>
  \<open>new Date(s).getTime()\<close> for the date strings of the tables, \<open>YYYY-MM-DD\<close>: the
  milliseconds from the epoch to midnight UTC of that day, by the day count of ECMAScript
  (\<open>DayFromYear\<close>, then the days of the months before). A string of another shape, or one
  that names no day of the calendar, is taken to give \<open>NaN\<close> (\<open>None\<close>): the other formats
  that \<open>Date.parse\<close> may accept are left out.
\<close>

definition isoDate :: "string \<Rightarrow> date option" where
  "isoDate s =
     (if length s = 10 \<and> s ! 4 = CHR ''-'' \<and> s ! 7 = CHR ''-'' \<and>
         list_all isDigit (take 4 s) \<and> list_all isDigit (take 2 (drop 5 s)) \<and>
         list_all isDigit (drop 8 s)
      then (let y = int (digitsValue (take 4 s));
                m = int (digitsValue (take 2 (drop 5 s)));
                d = int (digitsValue (drop 8 s))
            in if 1 \<le> m \<and> m \<le> 12 \<and> 1 \<le> d \<and> d \<le> daysInMonth y (m - 1)
               then Some (Date y (m - 1) d) else None)
      else None)"

definition DayFromYear :: "int \<Rightarrow> int" where
  "DayFromYear y =
     365 * (y - 1970) + (y - 1969) div 4 - (y - 1901) div 100 + (y - 1601) div 400"

definition daysBeforeMonth :: "int \<Rightarrow> int \<Rightarrow> int" where
  "daysBeforeMonth y m = sum_list (map (daysInMonth y) [0..m - 1])"

definition utcTime :: "date \<Rightarrow> int" where
  "utcTime dt =
     86400000 * (DayFromYear (getFullYear dt) + daysBeforeMonth (getFullYear dt) (getMonth dt) +
                 (getDate dt - 1))"

definition getTime :: "string \<Rightarrow> int option" where
  "getTime s = map_option utcTime (isoDate s)"

text \<open>
  \<open>array.sort(compare)\<close>. The sort is stable and orders by the sign of \<open>compare\<close>, a result
  of \<open>NaN\<close> counting as 0; with a comparator that is an order the result is the one of
  inserting the elements one after the other, each behind the elements that do not sort
  after it.
\<close>

definition SortCompare :: "('a \<Rightarrow> 'a \<Rightarrow> int option) \<Rightarrow> 'a \<Rightarrow> 'a \<Rightarrow> int" where
  "SortCompare compare a b = (case compare a b of None \<Rightarrow> 0 | Some v \<Rightarrow> v)"

fun insertSorted :: "('a \<Rightarrow> 'a \<Rightarrow> int option) \<Rightarrow> 'a \<Rightarrow> 'a list \<Rightarrow> 'a list" where
  "insertSorted compare x [] = [x]"
| "insertSorted compare x (y # ys) =
     (if SortCompare compare y x \<le> 0 then y # insertSorted compare x ys else x # y # ys)"

definition arraySort :: "('a \<Rightarrow> 'a \<Rightarrow> int option) \<Rightarrow> 'a list \<Rightarrow> 'a list" where
  "arraySort compare xs = foldl (\<lambda>sorted x. insertSorted compare x sorted) [] xs"

text \<open>The difference of two time values; \<open>NaN\<close> when either is.\<close>

definition timeDifference :: "string \<Rightarrow> string \<Rightarrow> int option" where
  "timeDifference dateA dateB =
     (case (getTime dateA, getTime dateB) of
        (Some ta, Some tb) \<Rightarrow> Some (ta - tb)
      | _ \<Rightarrow> None)"

text \<open>
  The rows of \<open>weight_history\<close> and of \<open>pets\<close>, with the columns the two components read.
  A weight is a number; its type is left open.
\<close>

record 'n weightRecord =
  weight_id :: string
  weight_pet_id :: string
  weight :: 'n
  weight_date :: string
  weight_notes :: "string option"

record 'n pet =
  pet_row_id :: string
  pet_name :: string
  pet_species :: string
  pet_weight :: "'n option"
  pet_created_at :: string

datatype eventType = WeightEvent | VaccineEvent | DewormingEvent

record timelineEvent =
  event_id :: string
  event_type :: eventType
  event_date :: string
  event_title :: string
  event_description :: "string option"
  event_icon :: string
  event_color :: string

text \<open>
  The part of \<open>TimelineTab.fetchAllEvents\<close> after the three queries have answered:
  \<open>weightData\<close>, \<open>vaccineData\<close> and \<open>dewormingData\<close> are their rows, in the order of the
  answers, and \<open>toString\<close> is the conversion of a number in \<^verbatim>\<open>`${record.weight} kg`\<close>.
  First the array \<open>allEvents\<close> as the three \<open>forEach\<close> loops fill it.
\<close>

definition allEvents ::
  "('n \<Rightarrow> string) \<Rightarrow> 'n weightRecord list \<Rightarrow> vaccination list \<Rightarrow> deworming list \<Rightarrow>
   timelineEvent list"
where
  "allEvents toString weightData vaccineData dewormingData =
     map (\<lambda>record. \<lparr> event_id = weight_id record, event_type = WeightEvent,
                       event_date = weight_date record,
                       event_title = toString (weight record) @ '' kg'',
                       event_description = weight_notes record,
                       event_icon = ''Scale'',
                       event_color = ''text-blue-600 dark:text-blue-400'' \<rparr>) weightData @
     map (\<lambda>record. \<lparr> event_id = vaccination_id record, event_type = VaccineEvent,
                       event_date = vaccination_date record,
                       event_title = vaccine_type record,
                       event_description = vaccination_notes record,
                       event_icon = ''Syringe'',
                       event_color = ''text-green-600 dark:text-green-400'' \<rparr>) vaccineData @
     map (\<lambda>record. \<lparr> event_id = deworming_id record, event_type = DewormingEvent,
                       event_date = deworming_date record,
                       event_title = deworming_type record,
                       event_description = deworming_notes record,
                       event_icon = ''Bug'',
                       event_color = ''text-orange-600 dark:text-orange-400'' \<rparr>) dewormingData"

text \<open>
  Then the sort, whose result is stored as the events of the tab:
  \<^verbatim>\<open>allEvents.sort((a, b) => new Date(b.date).getTime() - new Date(a.date).getTime())\<close>
\<close>

definition fetchAllEvents ::
  "('n \<Rightarrow> string) \<Rightarrow> 'n weightRecord list \<Rightarrow> vaccination list \<Rightarrow> deworming list \<Rightarrow>
   timelineEvent list"
where
  "fetchAllEvents toString weightData vaccineData dewormingData =
     arraySort (\<lambda>a b. timeDifference (event_date b) (event_date a))
       (allEvents toString weightData vaccineData dewormingData)"

text \<open>An entry of \<open>allWeightRecords\<close> in WeightTab; the synthetic entry has no \<open>id\<close>.\<close>

record 'n weightEntry =
  entry_date :: string
  entry_weight :: 'n
  isInitial :: bool
  entry_id :: "string option"

text \<open>\<open>timestamp.split('T')[0]\<close>\<close>

definition timestampToDateString :: "string \<Rightarrow> string" where
  "timestampToDateString timestamp = hd (split CHR ''T'' timestamp)"

text \<open>
  \<open>allWeightRecords\<close> of WeightTab, from the props \<open>pets\<close> and \<open>selectedPetId\<close> and the state
  \<open>weightRecords\<close>. \<open>parseFloat(x.toString())\<close> gives back the number \<open>x\<close>.
  \<^verbatim>\<open>allWeightRecords.sort((a, b) => new Date(a.date).getTime() - new Date(b.date).getTime())\<close>
\<close>

definition allWeightRecords ::
  "'n pet list \<Rightarrow> string \<Rightarrow> 'n weightRecord list \<Rightarrow> 'n weightEntry list"
where
  "allWeightRecords pets selectedPetId weightRecords =
     arraySort (\<lambda>a b. timeDifference (entry_date a) (entry_date b))
       ((case find (\<lambda>p. pet_row_id p = selectedPetId) pets of
           None \<Rightarrow> []
         | Some selectedPet \<Rightarrow>
             (case pet_weight selectedPet of
                None \<Rightarrow> []
              | Some w \<Rightarrow>
                  (let initialDate = timestampToDateString (pet_created_at selectedPet);
                       hasRecordOnInitialDate =
                         list_ex (\<lambda>record. weight_date record = initialDate) weightRecords
                   in if \<not> hasRecordOnInitialDate
                      then [\<lparr> entry_date = initialDate, entry_weight = w, isInitial = True,
                              entry_id = None \<rparr>]
                      else []))) @
        map (\<lambda>record. \<lparr> entry_date = weight_date record, entry_weight = weight record,
                          isInitial = False, entry_id = Some (weight_id record) \<rparr>)
          weightRecords)"

text \<open>The three records of the timeline scenario.\<close>

definition exampleWeight :: "nat weightRecord" where
  "exampleWeight = \<lparr> weight_id = ''w1'', weight_pet_id = ''pet'', weight = 12,
      weight_date = ''2024-01-10'', weight_notes = None \<rparr>"

definition exampleVaccine :: vaccination where
  "exampleVaccine = \<lparr> vaccination_id = ''v1'', vaccination_pet_id = ''pet'',
      vaccination_user_id = ''user'', vaccine_type = ''Rabies'',
      vaccination_date = ''2024-01-10'', vaccination_notes = None,
      create_reminder = False, reminder_frequency_years = None \<rparr>"

definition exampleDeworming :: deworming where
  "exampleDeworming = \<lparr> deworming_id = ''d1'', deworming_pet_id = ''pet'',
      deworming_user_id = ''user'', deworming_type = ''Drontal'',
      deworming_date = ''2024-02-01'', deworming_notes = None,
      deworming_create_reminder = False, reminder_frequency_type = None,
      reminder_frequency_value = None \<rparr>"

text \<open>The pet of the weight scenario, created on the day of the example weight record.\<close>

definition examplePet :: "nat pet" where
  "examplePet = \<lparr> pet_row_id = ''pet'', pet_name = ''Luna'', pet_species = ''dog'',
      pet_weight = Some 12, pet_created_at = ''2024-01-10T08:30:00.000Z'' \<rparr>"

text \<open>
  The selection of the reconciliation delete, for a pet, the label of the edited or deleted
  event and the kind marker: the rows that \<open>deleteReminders\<close> removes when it is called
  with the patterns \<open>%label%\<close> and \<open>%marker%\<close>.
\<close>

definition selected :: "string \<Rightarrow> string \<Rightarrow> string \<Rightarrow> reminder \<Rightarrow> bool" where
  "selected petId label marker r =
     (pet_id r = petId \<and> like (title r) (''%'' @ label @ ''%'') \<and>
      like (description r) (''%'' @ marker @ ''%''))"

text \<open>
  The scenario of two vaccines of one pet, "Rabies" and "Rabies Booster", both given on
  2019-03-15 with a yearly reminder, today = 2024-06-01: the form that logs "Rabies", its
  row, and the store after "Rabies Booster" alone has been logged.
\<close>

definition rabiesForm :: vaccineForm where
  "rabiesForm = \<lparr> formVaccineType = ''Rabies'', formDate = ''2019-03-15'', formNotes = [],
      formCreateReminder = True, formReminderFrequency = ''1'' \<rparr>"

definition rabiesRow :: vaccination where
  "rabiesRow = \<lparr> vaccination_id = ''v1'', vaccination_pet_id = ''pet'',
      vaccination_user_id = ''user'', vaccine_type = ''Rabies'',
      vaccination_date = ''2019-03-15'', vaccination_notes = None,
      create_reminder = True, reminder_frequency_years = Some 1 \<rparr>"

definition boosterDatabase :: database where
  "boosterDatabase =
     (case VaccineTab_handleSubmit ''pet'' (Some ''user'')
             (rabiesForm\<lparr>formVaccineType := ''Rabies Booster''\<rparr>) (Date 2024 5 1) ''v2''
             emptyDatabase of
        Some (t, db) \<Rightarrow> db
      | None \<Rightarrow> emptyDatabase)"

text \<open>
  The same scenario with labels that contain the word of the kind marker, "Vacuna Rabia"
  and "Vacuna Rabia Refuerzo": the store after "Vacuna Rabia Refuerzo" alone has been logged.
\<close>

definition refuerzoDatabase :: database where
  "refuerzoDatabase =
     (case VaccineTab_handleSubmit ''pet'' (Some ''user'')
             (rabiesForm\<lparr>formVaccineType := ''Vacuna Rabia Refuerzo''\<rparr>) (Date 2024 5 1) ''v2''
             emptyDatabase of
        Some (t, db) \<Rightarrow> db
      | None \<Rightarrow> emptyDatabase)"


text \<open>The month count of a date: the measure that every step of the loops increases.\<close>


definition monthRank :: "date \<Rightarrow> int" where
  "monthRank dt = 12 * getFullYear dt + getMonth dt"

section \<open>Calendar lemmas\<close>

lemma daysInMonth_bounds: "28 \<le> daysInMonth y m \<and> daysInMonth y m \<le> 31"
  by (simp add: daysInMonth_def)

lemma normDay_valid_fields:
  "0 \<le> m \<Longrightarrow> m \<le> 11 \<Longrightarrow> 1 \<le> d \<Longrightarrow> d \<le> daysInMonth y m \<Longrightarrow> normDay y m d = Date y m d"
  by (subst normDay.simps) simp

lemma normDay_valid: "0 \<le> m \<Longrightarrow> m \<le> 11 \<Longrightarrow> valid_date (normDay y m d)"
proof (induction y m d rule: normDay.induct)
  case (1 y m d)
  show ?case
  proof (cases "d < 1")
    case True
    obtain y' m' where pm: "prevMonth (y, m) = (y', m')" by (cases "prevMonth (y, m)")
    from pm "1.prems" have "0 \<le> m'" "m' \<le> 11" by (auto simp: prevMonth_def split: if_splits)
    with "1.IH"(1)[OF True pm[symmetric]] have "valid_date (normDay y' m' (d + daysInMonth y' m'))" by simp
    with True pm show ?thesis by (subst normDay.simps) simp
  next
    case False
    show ?thesis
    proof (cases "daysInMonth y m < d")
      case True
      obtain y' m' where nm: "nextMonth (y, m) = (y', m')" by (cases "nextMonth (y, m)")
      from nm "1.prems" have "0 \<le> m'" "m' \<le> 11" by (auto simp: nextMonth_def split: if_splits)
      with "1.IH"(2)[OF False True nm[symmetric]] have "valid_date (normDay y' m' (d - daysInMonth y m))" by simp
      with False True nm show ?thesis by (subst normDay.simps) simp
    next
      case F2: False
      with False "1.prems" show ?thesis by (subst normDay.simps) (simp add: valid_date_def)
    qed
  qed
qed

lemma normDay_rank: "0 \<le> m \<Longrightarrow> m \<le> 11 \<Longrightarrow> 1 \<le> d \<Longrightarrow> 12 * y + m \<le> monthRank (normDay y m d)"
proof (induction y m d rule: normDay.induct)
  case (1 y m d)
  show ?case
  proof (cases "daysInMonth y m < d")
    case True
    obtain y' m' where nm: "nextMonth (y, m) = (y', m')" by (cases "nextMonth (y, m)")
    from nm "1.prems" have b: "0 \<le> m'" "m' \<le> 11" "12 * y + m \<le> 12 * y' + m'" by (auto simp: nextMonth_def split: if_splits)
    have d1: "\<not> d < 1" using "1.prems" by simp
    have "1 \<le> d - daysInMonth y m" using True by simp
    with "1.IH"(2)[OF d1 True nm[symmetric]] b have "12 * y' + m' \<le> monthRank (normDay y' m' (d - daysInMonth y m))" by simp
    with d1 True nm b show ?thesis by (subst normDay.simps) simp
  next
    case False
    with "1.prems" show ?thesis by (subst normDay.simps) (simp add: monthRank_def)
  qed
qed

lemma MakeDay_valid: "valid_date (MakeDay y m d)"
  by (simp add: MakeDay_def normDay_valid)

lemma newDate_valid: "valid_date (newDate y m d)"
  by (simp add: newDate_def MakeDay_valid)

lemma addYears_valid: "valid_date (addYears n dt)"
  by (simp add: addYears_def setFullYear_def MakeDay_valid)

lemma addYears_eq:
  assumes "valid_date dt"
  shows "addYears n dt =
     (if getMonth dt = 1 \<and> getDate dt = 29 \<and> \<not> isLeapYear (getFullYear dt + n)
      then Date (getFullYear dt + n) 2 1
      else Date (getFullYear dt + n) (getMonth dt) (getDate dt))"
proof -
  obtain y m d where dt: "dt = Date y m d" by (cases dt)
  from assms dt have v: "0 \<le> m" "m \<le> 11" "1 \<le> d" "d \<le> daysInMonth y m" by (simp_all add: valid_date_def)
  then have md: "m div 12 = 0" "m mod 12 = m" by simp_all
  show ?thesis
  proof (cases "d \<le> daysInMonth (y + n) m")
    case True
    with v md dt have "addYears n dt = Date (y + n) m d"
      by (simp add: addYears_def setFullYear_def MakeDay_def normDay_valid_fields)
    moreover from True v have "\<not> (m = 1 \<and> d = 29 \<and> \<not> isLeapYear (y + n))"
      by (auto simp: daysInMonth_def split: if_splits)
    ultimately show ?thesis using dt by simp
  next
    case False
    with v have f: "m = 1" "d = 29" "\<not> isLeapYear (y + n)"
      by (auto simp: daysInMonth_def split: if_splits)
    have "normDay (y + n) 1 29 = normDay (y + n) 2 1"
      using f by (subst normDay.simps) (simp add: daysInMonth_def nextMonth_def)
    also have "\<dots> = Date (y + n) 2 1"
      by (simp add: normDay_valid_fields daysInMonth_def)
    finally show ?thesis using dt f
      by (simp add: addYears_def setFullYear_def MakeDay_def)
  qed
qed

lemma addYears_year: "valid_date dt \<Longrightarrow> getFullYear (addYears n dt) = getFullYear dt + n"
  by (simp add: addYears_eq)

lemma setMonth_rank:
  assumes "valid_date dt"
  shows "monthRank dt + n \<le> monthRank (setMonth dt (getMonth dt + n))"
proof -
  let ?k = "getMonth dt + n"
  have "0 \<le> ?k mod 12" "?k mod 12 \<le> 11" by simp_all
  moreover have "1 \<le> getDate dt" using assms by (simp add: valid_date_def)
  ultimately have "12 * (getFullYear dt + ?k div 12) + ?k mod 12
      \<le> monthRank (normDay (getFullYear dt + ?k div 12) (?k mod 12) (getDate dt))"
    by (rule normDay_rank)
  moreover have "12 * (getFullYear dt + ?k div 12) + ?k mod 12 = monthRank dt + n"
    by (simp add: monthRank_def algebra_simps) 
  ultimately show ?thesis by (simp add: setMonth_def MakeDay_def)
qed

lemma date_lt_rank:
  "date_lt a b \<Longrightarrow> valid_date a \<Longrightarrow> valid_date b \<Longrightarrow> monthRank a \<le> monthRank b"
  by (auto simp: date_lt_def monthRank_def valid_date_def)

lemma date_le_rank:
  "date_le a b \<Longrightarrow> valid_date a \<Longrightarrow> valid_date b \<Longrightarrow> monthRank a \<le> monthRank b"
  by (auto simp: date_le_def date_lt_rank)

lemma addYears_rank: "valid_date dt \<Longrightarrow> monthRank dt + 12 * n \<le> monthRank (addYears n dt)"
  by (simp add: addYears_eq monthRank_def valid_date_def)

lemma catchUp_iter:
  assumes step: "\<And>d. valid_date d \<Longrightarrow> valid_date (step d) \<and> monthRank d < monthRank (step d)"
    and today: "valid_date today" and "valid_date d"
  shows "\<exists>k. catchUp step today d = Some ((step ^^ k) d) \<and> valid_date ((step ^^ k) d) \<and>
             \<not> date_lt ((step ^^ k) d) today \<and> (\<forall>j<k. date_lt ((step ^^ j) d) today)"
  using \<open>valid_date d\<close>
proof (induction "nat (monthRank today + 1 - monthRank d)" arbitrary: d rule: less_induct)
  case less
  show ?case
  proof (cases "date_lt d today")
    case False
    then have "catchUp step today d = Some ((step ^^ 0) d)"
      by (subst catchUp.simps) simp
    with False less.prems show ?thesis by (intro exI[of _ 0]) simp
  next
    case True
    from step[OF less.prems] have s: "valid_date (step d)" "monthRank d < monthRank (step d)" by simp_all
    from True less.prems today have "monthRank d \<le> monthRank today" by (rule date_lt_rank)
    with s have "nat (monthRank today + 1 - monthRank (step d)) < nat (monthRank today + 1 - monthRank d)"
      by simp
    from less.hyps[OF this s(1)] obtain k where k:
      "catchUp step today (step d) = Some ((step ^^ k) (step d))" "valid_date ((step ^^ k) (step d))"
      "\<not> date_lt ((step ^^ k) (step d)) today" "\<forall>j<k. date_lt ((step ^^ j) (step d)) today"
      by blast
    have c: "catchUp step today d = catchUp step today (step d)"
      using True by (subst catchUp.simps) simp
    have "\<forall>j<Suc k. date_lt ((step ^^ j) d) today"
    proof (intro allI impI)
      fix j assume "j < Suc k"
      show "date_lt ((step ^^ j) d) today"
      proof (cases j)
        case 0 with True show ?thesis by simp
      next
        case (Suc i)
        with \<open>j < Suc k\<close> k(4) show ?thesis by (simp add: funpow_swap1)
      qed
    qed
    with k c show ?thesis by (intro exI[of _ "Suc k"]) (simp add: funpow_swap1)
  qed
qed

lemma pushLoop_iter:
  assumes "1 \<le> n" and maxDate: "valid_date maxDate" and "valid_date cur"
  shows "\<exists>k. pushLoop p u v n maxDate cur acc =
               Some (acc @ map (\<lambda>j. vaccineReminder p u v ((addYears n ^^ j) cur)) [0..<k]) \<and>
             (\<forall>j<k. date_le ((addYears n ^^ j) cur) maxDate) \<and>
             \<not> date_le ((addYears n ^^ k) cur) maxDate"
  using \<open>valid_date cur\<close>
proof (induction "nat (monthRank maxDate + 1 - monthRank cur)" arbitrary: cur acc rule: less_induct)
  case less
  show ?case
  proof (cases "date_le cur maxDate")
    case False
    then have "pushLoop p u v n maxDate cur acc = Some acc"
      by (subst pushLoop.simps) simp
    with False show ?thesis by (intro exI[of _ 0]) simp
  next
    case True
    let ?c = "addYears n cur"
    have v: "valid_date ?c" by (rule addYears_valid)
    from addYears_rank[OF less.prems, of n] assms(1) have "monthRank cur < monthRank ?c" by simp
    moreover from True less.prems maxDate have "monthRank cur \<le> monthRank maxDate" by (rule date_le_rank)
    ultimately have "nat (monthRank maxDate + 1 - monthRank ?c) < nat (monthRank maxDate + 1 - monthRank cur)"
      by simp
    from less.hyps[OF this v, of "acc @ [vaccineReminder p u v cur]"] obtain k where k:
      "pushLoop p u v n maxDate ?c (acc @ [vaccineReminder p u v cur]) =
         Some ((acc @ [vaccineReminder p u v cur]) @
               map (\<lambda>j. vaccineReminder p u v ((addYears n ^^ j) ?c)) [0..<k])"
      "\<forall>j<k. date_le ((addYears n ^^ j) ?c) maxDate"
      "\<not> date_le ((addYears n ^^ k) ?c) maxDate"
      by blast
    have c: "pushLoop p u v n maxDate cur acc =
             pushLoop p u v n maxDate ?c (acc @ [vaccineReminder p u v cur])"
      using True by (subst pushLoop.simps) simp
    have m: "map (\<lambda>j. vaccineReminder p u v ((addYears n ^^ j) cur)) [0..<Suc k] =
             vaccineReminder p u v cur # map (\<lambda>j. vaccineReminder p u v ((addYears n ^^ j) ?c)) [0..<k]"
      by (simp only: upt_conv_Cons[of 0 "Suc k"] map_Suc_upt[symmetric]) (simp add: funpow_swap1 comp_def del: upt_Suc)
    have a: "\<forall>j<Suc k. date_le ((addYears n ^^ j) cur) maxDate"
    proof (intro allI impI)
      fix j assume "j < Suc k"
      show "date_le ((addYears n ^^ j) cur) maxDate"
      proof (cases j)
        case 0 with True show ?thesis by simp
      next
        case (Suc i)
        with \<open>j < Suc k\<close> k(2) show ?thesis by (simp add: funpow_swap1)
      qed
    qed
    show ?thesis
      apply (rule exI[of _ "Suc k"])
      apply (simp only: c k(1) m)
      using a k(3) by (simp add: funpow_swap1)
  qed
qed

lemma rank_date_lt:
  "monthRank a < monthRank b \<Longrightarrow> valid_date a \<Longrightarrow> valid_date b \<Longrightarrow> date_lt a b"
  by (auto simp: date_lt_def monthRank_def valid_date_def)

lemma addYears_step:
  "1 \<le> n \<Longrightarrow> valid_date d \<Longrightarrow> valid_date (addYears n d) \<and> monthRank d < monthRank (addYears n d)"
  using addYears_rank[of d n] by (simp add: addYears_valid)

lemma dewormingStep_step:
  assumes "1 \<le> n" and "frequencyType = ''months'' \<or> frequencyType = ''year''" and "valid_date d"
  shows "valid_date (dewormingStep frequencyType n d) \<and>
         monthRank d < monthRank (dewormingStep frequencyType n d)"
proof (cases "frequencyType = ''months''")
  case True
  with setMonth_rank[OF assms(3), of n] assms(1) show ?thesis
    by (simp add: dewormingStep_def setMonth_def MakeDay_valid)
next
  case False
  with assms(2) have "dewormingStep frequencyType n d = addYears n d"
    by (simp add: dewormingStep_def addYears_def)
  with addYears_step[OF assms(1,3)] show ?thesis by simp
qed

lemma funpow_rank:
  assumes step: "\<And>d. valid_date d \<Longrightarrow> valid_date (step d) \<and> monthRank d < monthRank (step d)"
    and "valid_date d"
  shows "valid_date ((step ^^ j) d) \<and> monthRank d + int j \<le> monthRank ((step ^^ j) d)"
proof (induction j)
  case 0
  with assms(2) show ?case by simp
next
  case (Suc j)
  with step[of "(step ^^ j) d"] show ?case by simp
qed

lemma funpow_later:
  assumes step: "\<And>d. valid_date d \<Longrightarrow> valid_date (step d) \<and> monthRank d < monthRank (step d)"
    and "valid_date d" and "1 \<le> j"
  shows "date_lt d ((step ^^ j) d)"
proof -
  from funpow_rank[OF step assms(2), of j] assms(3)
  have "valid_date ((step ^^ j) d)" "monthRank d < monthRank ((step ^^ j) d)" by simp_all
  with assms(2) show ?thesis by (simp add: rank_date_lt)
qed

text \<open>The date from which the reminders start: the first step past the logged date that is
  not before today when the logged date is in the past, the first step otherwise.\<close>

lemma next_occurrence:
  assumes step: "\<And>d. valid_date d \<Longrightarrow> valid_date (step d) \<and> monthRank d < monthRank (step d)"
    and today: "valid_date today" and start: "valid_date start"
  shows "\<exists>k. 1 \<le> k \<and>
     (if date_lt start today then catchUp step today (step start) else Some (step start)) =
        Some ((step ^^ k) start) \<and>
     (date_lt start today \<longrightarrow>
        \<not> date_lt ((step ^^ k) start) today \<and>
        (\<forall>j. 1 \<le> j \<and> j < k \<longrightarrow> date_lt ((step ^^ j) start) today)) \<and>
     (\<not> date_lt start today \<longrightarrow> k = 1)"
proof (cases "date_lt start today")
  case False
  then show ?thesis by (intro exI[of _ 1]) simp
next
  case True
  from step[OF start] have "valid_date (step start)" by simp
  from catchUp_iter[of step today "step start", OF step today this] obtain k where k:
    "catchUp step today (step start) = Some ((step ^^ k) (step start))"
    "\<not> date_lt ((step ^^ k) (step start)) today"
    "\<forall>j<k. date_lt ((step ^^ j) (step start)) today"
    by blast
  have "\<forall>j. 1 \<le> j \<and> j < Suc k \<longrightarrow> date_lt ((step ^^ j) start) today"
  proof (intro allI impI)
    fix j assume j: "1 \<le> j \<and> j < Suc k"
    then obtain i where "j = Suc i" by (cases j) auto
    with j k(3) show "date_lt ((step ^^ j) start) today" by (simp add: funpow_swap1)
  qed
  with True k show ?thesis by (intro exI[of _ "Suc k"]) (simp add: funpow_swap1)
qed

lemma addYears_funpow:
  assumes "valid_date d" and "\<not> (getMonth d = 1 \<and> getDate d = 29)"
  shows "(addYears n ^^ k) d = Date (getFullYear d + int k * n) (getMonth d) (getDate d)"
proof (induction k)
  case 0
  show ?case by simp
next
  case (Suc k)
  have "valid_date ((addYears n ^^ k) d)"
    using assms(1) by (cases k) (simp_all add: addYears_valid)
  with Suc assms(2) show ?case by (auto simp: addYears_eq algebra_simps)
qed

lemma parseDateString_valid: "parseDateString s = Some d \<Longrightarrow> valid_date d"
  by (auto simp: parseDateString_def newDate_valid split: list.splits option.splits)

lemma catchUp_Some_moves:
  assumes "catchUp step today d = Some y"
  shows "\<not> (step d = d \<and> date_lt d today)"
proof (rule catchUp.raw_induct
    [where P = "\<lambda>step today d y. \<not> (step d = d \<and> date_lt d today)", OF _ assms])
  fix loop :: "(date \<Rightarrow> date) \<Rightarrow> date \<Rightarrow> date \<Rightarrow> date option" and step today d y
  assume IH: "\<And>step today d y. loop step today d = Some y \<Longrightarrow> \<not> (step d = d \<and> date_lt d today)"
    and body: "(if date_lt d today then loop step today (step d) else Some d) = Some y"
  show "\<not> (step d = d \<and> date_lt d today)"
  proof
    assume a: "step d = d \<and> date_lt d today"
    then have "date_lt d today" and e: "step d = d" by blast+
    with body have "loop step today (step d) = Some y" by (simp only: if_True)
    with arg_cong[OF e, of "loop step today"] have "loop step today d = Some y" by (rule subst)
    from IH[OF this] a show False by blast
  qed
qed

lemma catchUp_stuck:
  assumes "step d = d" and "date_lt d today"
  shows "catchUp step today d = None"
proof (cases "catchUp step today d")
  case None
  then show ?thesis .
next
  case (Some y)
  from catchUp_Some_moves[OF this] assms show ?thesis by blast
qed

lemma pushLoop_bound:
  assumes "pushLoop p u v n maxDate cur acc = Some rs"
  shows "\<forall>r\<in>set rs. r \<in> set acc \<or>
           (\<exists>d. reminder_date r = formatDateString d \<and> date_le d maxDate)"
proof (rule pushLoop.raw_induct
    [where P = "\<lambda>p u v n maxDate cur acc rs. \<forall>r\<in>set rs. r \<in> set acc \<or>
           (\<exists>d. reminder_date r = formatDateString d \<and> date_le d maxDate)", OF _ assms])
  fix loop :: "string \<Rightarrow> string \<Rightarrow> string \<Rightarrow> int \<Rightarrow> date \<Rightarrow> date \<Rightarrow> reminder list \<Rightarrow> reminder list option"
    and p u v n maxDate cur acc rs
  assume IH: "\<And>p u v n maxDate cur acc rs. loop p u v n maxDate cur acc = Some rs \<Longrightarrow>
      \<forall>r\<in>set rs. r \<in> set acc \<or> (\<exists>d. reminder_date r = formatDateString d \<and> date_le d maxDate)"
    and body: "(if date_le cur maxDate
       then loop p u v n maxDate (addYears n cur) (acc @ [vaccineReminder p u v cur])
       else Some acc) = Some rs"
  show "\<forall>r\<in>set rs. r \<in> set acc \<or>
          (\<exists>d. reminder_date r = formatDateString d \<and> date_le d maxDate)"
  proof (cases "date_le cur maxDate")
    case False
    with body show ?thesis by simp
  next
    case True
    with body have "loop p u v n maxDate (addYears n cur) (acc @ [vaccineReminder p u v cur]) = Some rs"
      by simp
    from IH[OF this] have "\<forall>r\<in>set rs. r \<in> set acc \<or> r = vaccineReminder p u v cur \<or>
        (\<exists>d. reminder_date r = formatDateString d \<and> date_le d maxDate)" by auto
    moreover have "reminder_date (vaccineReminder p u v cur) = formatDateString cur"
      by (simp add: vaccineReminder_def)
    ultimately show ?thesis using True by metis
  qed
qed

lemma vaccine_batch:
  assumes today: "valid_date today" and n: "1 \<le> n" and p: "parseDateString vaccineDate = Some start"
  shows "\<exists>k m. 1 \<le> k \<and>
     remindersToCreate petId userId vaccineType vaccineDate n today =
       Some (map (\<lambda>j. vaccineReminder petId userId vaccineType ((addYears n ^^ (k + j)) start)) [0..<m]) \<and>
     (date_lt start today \<longrightarrow>
        \<not> date_lt ((addYears n ^^ k) start) today \<and>
        (\<forall>j. 1 \<le> j \<and> j < k \<longrightarrow> date_lt ((addYears n ^^ j) start) today)) \<and>
     (\<not> date_lt start today \<longrightarrow> k = 1) \<and>
     (\<forall>j<m. date_le ((addYears n ^^ (k + j)) start) (addYears 10 today)) \<and>
     \<not> date_le ((addYears n ^^ (k + m)) start) (addYears 10 today)"
proof -
  have start: "valid_date start" using p by (rule parseDateString_valid)
  have step: "\<And>d. valid_date d \<Longrightarrow> valid_date (addYears n d) \<and> monthRank d < monthRank (addYears n d)"
    using n by (rule addYears_step)
  from next_occurrence[of "addYears n", OF step today start] obtain k where k:
    "1 \<le> k"
    "(if date_lt start today then catchUp (addYears n) today (addYears n start)
      else Some (addYears n start)) = Some ((addYears n ^^ k) start)"
    "date_lt start today \<longrightarrow>
        \<not> date_lt ((addYears n ^^ k) start) today \<and>
        (\<forall>j. 1 \<le> j \<and> j < k \<longrightarrow> date_lt ((addYears n ^^ j) start) today)"
    "\<not> date_lt start today \<longrightarrow> k = 1"
    by blast
  let ?next = "(addYears n ^^ k) start"
  have "valid_date ?next" using funpow_rank[of "addYears n", OF step start] by simp
  from pushLoop_iter[OF n addYears_valid this, of petId userId vaccineType 10 today "[]"]
  obtain m where m:
    "pushLoop petId userId vaccineType n (addYears 10 today) ?next [] =
       Some (map (\<lambda>j. vaccineReminder petId userId vaccineType ((addYears n ^^ j) ?next)) [0..<m])"
    "\<forall>j<m. date_le ((addYears n ^^ j) ?next) (addYears 10 today)"
    "\<not> date_le ((addYears n ^^ m) ?next) (addYears 10 today)"
    by auto
  have f: "(addYears n ^^ j) ?next = (addYears n ^^ (k + j)) start" for j
    by (simp add: funpow_add add.commute)
  have r: "remindersToCreate petId userId vaccineType vaccineDate n today =
        pushLoop petId userId vaccineType n (addYears 10 today) ?next []"
    unfolding remindersToCreate_def p using k(2) by simp
  show ?thesis
  proof (rule exI[of _ k], rule exI[of _ m], intro conjI)
    show "1 \<le> k" by (rule k(1))
    show "remindersToCreate petId userId vaccineType vaccineDate n today =
       Some (map (\<lambda>j. vaccineReminder petId userId vaccineType ((addYears n ^^ (k + j)) start)) [0..<m])"
      using r m(1) by (simp add: f)
    show "date_lt start today \<longrightarrow>
        \<not> date_lt ((addYears n ^^ k) start) today \<and>
        (\<forall>j. 1 \<le> j \<and> j < k \<longrightarrow> date_lt ((addYears n ^^ j) start) today)" by (rule k(3))
    show "\<not> date_lt start today \<longrightarrow> k = 1" by (rule k(4))
    show "\<forall>j<m. date_le ((addYears n ^^ (k + j)) start) (addYears 10 today)"
      using m(2) by (simp add: f)
    show "\<not> date_le ((addYears n ^^ (k + m)) start) (addYears 10 today)"
      using m(3) by (simp add: f)
  qed
qed

lemma deworming_batch:
  assumes today: "valid_date today" and n: "1 \<le> n"
    and ft: "frequencyType = ''months'' \<or> frequencyType = ''year''"
    and p: "parseDateString dewormingDate = Some start"
  shows "\<exists>k. 1 \<le> k \<and>
     nextReminderToCreate petId userId dewormingType dewormingDate frequencyType n today =
       Some (if date_le ((dewormingStep frequencyType n ^^ k) start) (addYears 10 today)
             then [dewormingReminder petId userId dewormingType
                     ((dewormingStep frequencyType n ^^ k) start)]
             else []) \<and>
     (date_lt start today \<longrightarrow>
        \<not> date_lt ((dewormingStep frequencyType n ^^ k) start) today \<and>
        (\<forall>j. 1 \<le> j \<and> j < k \<longrightarrow> date_lt ((dewormingStep frequencyType n ^^ j) start) today)) \<and>
     (\<not> date_lt start today \<longrightarrow> k = 1)"
proof -
  have start: "valid_date start" using p by (rule parseDateString_valid)
  let ?step = "dewormingStep frequencyType n"
  have step: "\<And>d. valid_date d \<Longrightarrow> valid_date (?step d) \<and> monthRank d < monthRank (?step d)"
    using n ft by (rule dewormingStep_step)
  from next_occurrence[of ?step, OF step today start] obtain k where k:
    "1 \<le> k"
    "(if date_lt start today then catchUp ?step today (?step start)
      else Some (?step start)) = Some ((?step ^^ k) start)"
    "date_lt start today \<longrightarrow>
        \<not> date_lt ((?step ^^ k) start) today \<and>
        (\<forall>j. 1 \<le> j \<and> j < k \<longrightarrow> date_lt ((?step ^^ j) start) today)"
    "\<not> date_lt start today \<longrightarrow> k = 1"
    by blast
  have "nextReminderToCreate petId userId dewormingType dewormingDate frequencyType n today =
       Some (if date_le ((?step ^^ k) start) (addYears 10 today)
             then [dewormingReminder petId userId dewormingType ((?step ^^ k) start)]
             else [])"
    unfolding nextReminderToCreate_def p using k(2) by simp
  with k(1,3,4) show ?thesis by blast
qed

lemma later_not_before: "\<not> date_lt a t \<Longrightarrow> date_lt a b \<Longrightarrow> \<not> date_lt b t"
  by (auto simp: date_lt_def)

lemma funpow_not_before:
  assumes step: "\<And>d. valid_date d \<Longrightarrow> valid_date (step d) \<and> monthRank d < monthRank (step d)"
    and "valid_date d" and "\<not> date_lt ((step ^^ k) d) t"
  shows "\<not> date_lt ((step ^^ (k + j)) d) t"
proof (cases j)
  case 0
  with assms(3) show ?thesis by simp
next
  case (Suc i)
  have v: "valid_date ((step ^^ k) d)" using funpow_rank[OF step assms(2)] by simp
  have "date_lt ((step ^^ k) d) ((step ^^ j) ((step ^^ k) d))"
    using funpow_later[OF step v, of j] Suc by simp
  with assms(3) have "\<not> date_lt ((step ^^ j) ((step ^^ k) d)) t" by (rule later_not_before)
  then show ?thesis by (simp add: funpow_add add.commute)
qed

lemma vaccine_first_due:
  assumes today: "valid_date today" and n: "1 \<le> n" and p: "parseDateString vaccineDate = Some start"
  shows "\<exists>k rs. 1 \<le> k \<and>
     remindersToCreate petId userId label vaccineDate n today = Some rs \<and>
     (rs \<noteq> [] \<longrightarrow> reminder_date (hd rs) = formatDateString ((addYears n ^^ k) start)) \<and>
     (date_lt start today \<longrightarrow>
        \<not> date_lt ((addYears n ^^ k) start) today \<and>
        (\<forall>j. 1 \<le> j \<and> j < k \<longrightarrow> date_lt ((addYears n ^^ j) start) today)) \<and>
     (\<not> date_lt start today \<longrightarrow> k = 1) \<and>
     (\<not> (getMonth start = 1 \<and> getDate start = 29) \<longrightarrow>
        (addYears n ^^ k) start =
          Date (getFullYear start + int k * n) (getMonth start) (getDate start)) \<and>
     (\<forall>r\<in>set rs. \<exists>d. reminder_date r = formatDateString d \<and> date_lt start d \<and>
        (date_lt start today \<longrightarrow> \<not> date_lt d today))"
proof -
  have start: "valid_date start" using p by (rule parseDateString_valid)
  have step: "\<And>d. valid_date d \<Longrightarrow> valid_date (addYears n d) \<and> monthRank d < monthRank (addYears n d)"
    using n by (rule addYears_step)
  from vaccine_batch[OF today n p, of petId userId label] obtain k m where km:
    "1 \<le> k"
    "remindersToCreate petId userId label vaccineDate n today =
       Some (map (\<lambda>j. vaccineReminder petId userId label ((addYears n ^^ (k + j)) start)) [0..<m])"
    "date_lt start today \<longrightarrow>
        \<not> date_lt ((addYears n ^^ k) start) today \<and>
        (\<forall>j. 1 \<le> j \<and> j < k \<longrightarrow> date_lt ((addYears n ^^ j) start) today)"
    "\<not> date_lt start today \<longrightarrow> k = 1"
    by blast
  let ?rs = "map (\<lambda>j. vaccineReminder petId userId label ((addYears n ^^ (k + j)) start)) [0..<m]"
  have hd: "?rs \<noteq> [] \<longrightarrow> reminder_date (hd ?rs) = formatDateString ((addYears n ^^ k) start)"
  proof
    assume "?rs \<noteq> []"
    then have "0 < m" by simp
    then have "hd ?rs = vaccineReminder petId userId label ((addYears n ^^ (k + 0)) start)"
      by (simp add: hd_map upt_conv_Cons del: upt_Suc)
    then show "reminder_date (hd ?rs) = formatDateString ((addYears n ^^ k) start)"
      by (simp add: vaccineReminder_def)
  qed
  have all: "\<forall>r\<in>set ?rs. \<exists>d. reminder_date r = formatDateString d \<and> date_lt start d \<and>
        (date_lt start today \<longrightarrow> \<not> date_lt d today)"
  proof
    fix r assume "r \<in> set ?rs"
    then obtain j where r: "r = vaccineReminder petId userId label ((addYears n ^^ (k + j)) start)"
      by auto
    let ?d = "(addYears n ^^ (k + j)) start"
    have "reminder_date r = formatDateString ?d" using r by (simp add: vaccineReminder_def)
    moreover have "date_lt start ?d" using funpow_later[OF step start, of "k + j"] km(1) by simp
    moreover have "date_lt start today \<longrightarrow> \<not> date_lt ?d today"
      using funpow_not_before[OF step start, of k today j] km(3) by blast
    ultimately show "\<exists>d. reminder_date r = formatDateString d \<and> date_lt start d \<and>
        (date_lt start today \<longrightarrow> \<not> date_lt d today)" by blast
  qed
  have direct: "\<not> (getMonth start = 1 \<and> getDate start = 29) \<longrightarrow>
        (addYears n ^^ k) start =
          Date (getFullYear start + int k * n) (getMonth start) (getDate start)"
    using addYears_funpow[OF start] by blast
  show ?thesis
    apply (rule exI[of _ k], rule exI[of _ ?rs])
    using km hd all direct by blast
qed

lemma deworming_first_due:
  assumes today: "valid_date today" and n: "1 \<le> n"
    and ft: "frequencyType = ''months'' \<or> frequencyType = ''year''"
    and p: "parseDateString dewormingDate = Some start"
  shows "\<exists>k rs. 1 \<le> k \<and>
     nextReminderToCreate petId userId label dewormingDate frequencyType n today = Some rs \<and>
     (rs \<noteq> [] \<longrightarrow> reminder_date (hd rs) =
        formatDateString ((dewormingStep frequencyType n ^^ k) start)) \<and>
     (date_lt start today \<longrightarrow>
        \<not> date_lt ((dewormingStep frequencyType n ^^ k) start) today \<and>
        (\<forall>j. 1 \<le> j \<and> j < k \<longrightarrow> date_lt ((dewormingStep frequencyType n ^^ j) start) today)) \<and>
     (\<not> date_lt start today \<longrightarrow> k = 1) \<and>
     (\<forall>r\<in>set rs. \<exists>d. reminder_date r = formatDateString d \<and> date_lt start d \<and>
        (date_lt start today \<longrightarrow> \<not> date_lt d today))"
proof -
  have start: "valid_date start" using p by (rule parseDateString_valid)
  let ?step = "dewormingStep frequencyType n"
  have step: "\<And>d. valid_date d \<Longrightarrow> valid_date (?step d) \<and> monthRank d < monthRank (?step d)"
    using n ft by (rule dewormingStep_step)
  from deworming_batch[OF today n ft p, of petId userId label] obtain k where k:
    "1 \<le> k"
    "nextReminderToCreate petId userId label dewormingDate frequencyType n today =
       Some (if date_le ((?step ^^ k) start) (addYears 10 today)
             then [dewormingReminder petId userId label ((?step ^^ k) start)] else [])"
    "date_lt start today \<longrightarrow>
        \<not> date_lt ((?step ^^ k) start) today \<and>
        (\<forall>j. 1 \<le> j \<and> j < k \<longrightarrow> date_lt ((?step ^^ j) start) today)"
    "\<not> date_lt start today \<longrightarrow> k = 1"
    by blast
  let ?rs = "if date_le ((?step ^^ k) start) (addYears 10 today)
             then [dewormingReminder petId userId label ((?step ^^ k) start)] else []"
  have rd: "reminder_date (dewormingReminder petId userId label ((?step ^^ k) start)) =
            formatDateString ((?step ^^ k) start)"
    by (simp add: dewormingReminder_def)
  have hd: "?rs \<noteq> [] \<longrightarrow> reminder_date (hd ?rs) = formatDateString ((?step ^^ k) start)"
    using rd by simp
  have later: "date_lt start ((?step ^^ k) start)"
    using funpow_later[OF step start, of k] k(1) by simp
  have all: "\<forall>r\<in>set ?rs. \<exists>d. reminder_date r = formatDateString d \<and> date_lt start d \<and>
        (date_lt start today \<longrightarrow> \<not> date_lt d today)"
    using rd later k(3) by auto
  show ?thesis
    apply (rule exI[of _ k], rule exI[of _ ?rs])
    using k hd all by blast
qed

section \<open>The scenario of the specification\<close>

lemmas date_eval =
  parseDateString_def Number_def isDigit_def digitsValue_def newDate_def MakeDay_def
  normDay.simps daysInMonth_def isLeapYear_def formatDateString_def String_def digits.simps
  digitChar_def padStart2_def addYears_def setFullYear_def setMonth_def date_lt_def date_le_def
  nextMonth_def prevMonth_def

text \<open>
  C1 (as the specification states it, refuted): for the vaccine "Rabies" given on 2019-03-15
  with a yearly recurrence and today = 2024-06-01 (the Date of June 1st has month index 5),
  the list of due dates is not the five dates 2025-03-15 to 2029-03-15.
\<close>

theorem C1_five_dates_counterexample:
  "map_option (map reminder_date)
     (remindersToCreate ''pet'' ''user'' ''Rabies'' ''2019-03-15'' 1 (Date 2024 5 1)) \<noteq>
   Some [''2025-03-15'', ''2026-03-15'', ''2027-03-15'', ''2028-03-15'', ''2029-03-15'']"
  by (simp add: remindersToCreate_def date_eval catchUp.simps pushLoop.simps vaccineReminder_def)

text \<open>
  C1 (amended): in that scenario \<open>createReminders\<close> builds exactly ten reminders, due on
  2025-03-15 and then every year up to 2034-03-15, the last anniversary on or before
  today + 10 years = 2034-06-01.
\<close>

theorem C1_rabies_due_dates:
  "map_option (map reminder_date)
     (remindersToCreate ''pet'' ''user'' ''Rabies'' ''2019-03-15'' 1 (Date 2024 5 1)) =
   Some [''2025-03-15'', ''2026-03-15'', ''2027-03-15'', ''2028-03-15'', ''2029-03-15'',
         ''2030-03-15'', ''2031-03-15'', ''2032-03-15'', ''2033-03-15'', ''2034-03-15'']"
  by (simp add: remindersToCreate_def date_eval catchUp.simps pushLoop.simps vaccineReminder_def)

lemma leap_day_dates:
  "map_option (map reminder_date)
     (remindersToCreate ''pet'' ''user'' ''Rabies'' ''2020-02-29'' 1 (Date 2024 1 29)) =
   Some [''2024-03-01'', ''2025-03-01'', ''2026-03-01'', ''2027-03-01'', ''2028-03-01'',
         ''2029-03-01'', ''2030-03-01'', ''2031-03-01'', ''2032-03-01'', ''2033-03-01'',
         ''2034-03-01'']"
  by (simp add: remindersToCreate_def date_eval catchUp.simps pushLoop.simps vaccineReminder_def)

text \<open>
  C2 (as stated, refuted): a vaccine given on 29 February 2020 with a yearly recurrence,
  today = 29 February 2024. The date start + 4 years is 2024-02-29, which is on or after
  today, but the first reminder is due on 2024-03-01: the first step rolls 29 February over
  to 1 March 2021, and every later step starts from there.
\<close>

theorem C2_leap_day_counterexample:
  "map_option (map reminder_date)
     (remindersToCreate ''pet'' ''user'' ''Rabies'' ''2020-02-29'' 1 (Date 2024 1 29)) =
   Some [''2024-03-01'', ''2025-03-01'', ''2026-03-01'', ''2027-03-01'', ''2028-03-01'',
         ''2029-03-01'', ''2030-03-01'', ''2031-03-01'', ''2032-03-01'', ''2033-03-01'',
         ''2034-03-01''] \<and>
   parseDateString ''2020-02-29'' = Some (Date 2020 1 29) \<and>
   addYears (4 * 1) (Date 2020 1 29) = Date 2024 1 29 \<and>
   \<not> date_lt (Date 2024 1 29) (Date 2024 1 29) \<and>
   formatDateString (Date 2024 1 29) = ''2024-02-29''"
  by (simp add: remindersToCreate_def date_eval catchUp.simps pushLoop.simps vaccineReminder_def)

text \<open>
  C2 (amended): with a positive interval both computations return. The date they start
  from is the result of \<open>k\<close> successive steps of the interval from the logged date, \<open>k \<ge> 1\<close>:
  when the logged date is before today, \<open>k\<close> is the least number of steps whose result is
  not before today; when the logged date is today or later, \<open>k = 1\<close>. Whenever a reminder
  is created, the first one is due on that date. For the vaccine that date is the logged
  date with \<open>k\<close> times the interval added to the year, unless the logged date is a 29
  February. Every reminder is due strictly after the logged date, and never before today
  when the logged date was before today: missed occurrences get no reminder.
\<close>

theorem C2_first_due_date:
  assumes "valid_date today" and "1 \<le> interval"
    and "parseDateString occurredOn = Some start"
    and "frequencyType = ''months'' \<or> frequencyType = ''year''"
  shows
   "(\<exists>k rs. 1 \<le> k \<and>
       remindersToCreate petId userId label occurredOn interval today = Some rs \<and>
       (rs \<noteq> [] \<longrightarrow> reminder_date (hd rs) = formatDateString ((addYears interval ^^ k) start)) \<and>
       (date_lt start today \<longrightarrow>
          \<not> date_lt ((addYears interval ^^ k) start) today \<and>
          (\<forall>j. 1 \<le> j \<and> j < k \<longrightarrow> date_lt ((addYears interval ^^ j) start) today)) \<and>
       (\<not> date_lt start today \<longrightarrow> k = 1) \<and>
       (\<not> (getMonth start = 1 \<and> getDate start = 29) \<longrightarrow>
          (addYears interval ^^ k) start =
            Date (getFullYear start + int k * interval) (getMonth start) (getDate start)) \<and>
       (\<forall>r\<in>set rs. \<exists>d. reminder_date r = formatDateString d \<and> date_lt start d \<and>
          (date_lt start today \<longrightarrow> \<not> date_lt d today))) \<and>
    (\<exists>k rs. 1 \<le> k \<and>
       nextReminderToCreate petId userId label occurredOn frequencyType interval today = Some rs \<and>
       (rs \<noteq> [] \<longrightarrow> reminder_date (hd rs) =
          formatDateString ((dewormingStep frequencyType interval ^^ k) start)) \<and>
       (date_lt start today \<longrightarrow>
          \<not> date_lt ((dewormingStep frequencyType interval ^^ k) start) today \<and>
          (\<forall>j. 1 \<le> j \<and> j < k \<longrightarrow>
             date_lt ((dewormingStep frequencyType interval ^^ j) start) today)) \<and>
       (\<not> date_lt start today \<longrightarrow> k = 1) \<and>
       (\<forall>r\<in>set rs. \<exists>d. reminder_date r = formatDateString d \<and> date_lt start d \<and>
          (date_lt start today \<longrightarrow> \<not> date_lt d today)))"
  using vaccine_first_due[OF assms(1,2,3)] deworming_first_due[OF assms(1,2,4,3)]
  by (rule conjI)

lemma rabies_first:
  "map_option (\<lambda>rs. (rs \<noteq> [], reminder_date (hd rs)))
     (remindersToCreate ''pet'' ''user'' ''Rabies'' ''2019-03-15'' 1 (Date 2024 5 1)) =
   Some (True, ''2025-03-15'')"
  by (simp add: remindersToCreate_def date_eval catchUp.simps pushLoop.simps vaccineReminder_def)

text \<open>
  C2, witness: the Rabies scenario (logged 2019-03-15, yearly, today 2024-06-01): the first
  reminder is due on 2025-03-15.
\<close>

theorem C2_first_due_date_witness:
  "valid_date (Date 2024 5 1) \<and> (1::int) \<le> 1 \<and>
   parseDateString ''2019-03-15'' = Some (Date 2019 2 15) \<and>
   date_lt (Date 2019 2 15) (Date 2024 5 1) \<and>
   (\<exists>k. 1 \<le> k \<and>
      formatDateString ((addYears 1 ^^ k) (Date 2019 2 15)) = ''2025-03-15'' \<and>
      \<not> date_lt ((addYears 1 ^^ k) (Date 2019 2 15)) (Date 2024 5 1) \<and>
      (addYears 1 ^^ k) (Date 2019 2 15) = Date (2019 + int k * 1) 2 15)"
proof -
  have v: "valid_date (Date 2024 5 1)" by (simp add: valid_date_def daysInMonth_def)
  have one: "(1::int) \<le> 1" by simp
  have p: "parseDateString ''2019-03-15'' = Some (Date 2019 2 15)" by (simp add: date_eval)
  have lt: "date_lt (Date 2019 2 15) (Date 2024 5 1)" by (simp add: date_lt_def)
  have ft: "''months'' = ''months'' \<or> ''months'' = ''year''" by simp
  from C2_first_due_date[OF v one p ft, of "''pet''" "''user''" "''Rabies''", THEN conjunct1]
  obtain k rs where k:
    "1 \<le> k \<and>
     remindersToCreate ''pet'' ''user'' ''Rabies'' ''2019-03-15'' 1 (Date 2024 5 1) = Some rs \<and>
     (rs \<noteq> [] \<longrightarrow> reminder_date (hd rs) = formatDateString ((addYears 1 ^^ k) (Date 2019 2 15))) \<and>
     (date_lt (Date 2019 2 15) (Date 2024 5 1) \<longrightarrow>
          \<not> date_lt ((addYears 1 ^^ k) (Date 2019 2 15)) (Date 2024 5 1) \<and>
          (\<forall>j. 1 \<le> j \<and> j < k \<longrightarrow> date_lt ((addYears 1 ^^ j) (Date 2019 2 15)) (Date 2024 5 1))) \<and>
     (\<not> date_lt (Date 2019 2 15) (Date 2024 5 1) \<longrightarrow> k = 1) \<and>
     (\<not> (getMonth (Date 2019 2 15) = 1 \<and> getDate (Date 2019 2 15) = 29) \<longrightarrow>
          (addYears 1 ^^ k) (Date 2019 2 15) =
            Date (getFullYear (Date 2019 2 15) + int k * 1) (getMonth (Date 2019 2 15))
              (getDate (Date 2019 2 15)))"
    by blast
  from k have rs: "remindersToCreate ''pet'' ''user'' ''Rabies'' ''2019-03-15'' 1 (Date 2024 5 1) = Some rs"
    by blast
  with rabies_first have "rs \<noteq> []" "reminder_date (hd rs) = ''2025-03-15''" by simp_all
  with k have "formatDateString ((addYears 1 ^^ k) (Date 2019 2 15)) = ''2025-03-15''" by simp
  moreover from k lt have "\<not> date_lt ((addYears 1 ^^ k) (Date 2019 2 15)) (Date 2024 5 1)" by blast
  moreover from k have "(addYears 1 ^^ k) (Date 2019 2 15) = Date (2019 + int k * 1) 2 15" by simp
  moreover from k have "1 \<le> k" by blast
  ultimately show ?thesis using v p lt by blast
qed

section \<open>Both computations: number of reminders, horizon, termination\<close>

lemma rabies_batch:
  "remindersToCreate ''pet'' ''user'' ''Rabies'' ''2019-03-15'' 1 (Date 2024 5 1) =
   Some (map (\<lambda>due. \<lparr> user_id = ''user'', pet_id = ''pet'', title = ''Vacuna: Rabies'',
                        description = ''Recordatorio para aplicar la vacuna Rabies'',
                        reminder_date = due, type = ''vaccination'' \<rparr>)
     [''2025-03-15'', ''2026-03-15'', ''2027-03-15'', ''2028-03-15'', ''2029-03-15'',
      ''2030-03-15'', ''2031-03-15'', ''2032-03-15'', ''2033-03-15'', ''2034-03-15''])"
  by (simp add: remindersToCreate_def date_eval catchUp.simps pushLoop.simps vaccineReminder_def)

lemma drontal_batch:
  "nextReminderToCreate ''pet'' ''user'' ''Drontal'' ''2024-01-31'' ''months'' 1 (Date 2024 5 1) =
   Some [\<lparr> user_id = ''user'', pet_id = ''pet'', title = Desparasitacion @ '': Drontal'',
           description = ''Recordatorio para aplicar la '' @ desparasitacion @ '' Drontal'',
           reminder_date = ''2024-06-02'', type = ''deworming'' \<rparr>]"
  by (simp add: nextReminderToCreate_def date_eval catchUp.simps dewormingStep_def
      dewormingReminder_def)

lemma nextReminderToCreate_length:
  "nextReminderToCreate p u t d ft n today = Some rs \<Longrightarrow> length rs \<le> 1"
  by (auto simp: nextReminderToCreate_def split: option.splits if_splits)

lemma nextReminderToCreate_bound:
  "nextReminderToCreate p u t d ft n today = Some rs \<Longrightarrow> r \<in> set rs \<Longrightarrow>
   \<exists>dt. reminder_date r = formatDateString dt \<and> date_le dt (addYears 10 today)"
  by (auto simp: nextReminderToCreate_def dewormingReminder_def split: option.splits if_splits)

lemma remindersToCreate_bound:
  assumes "remindersToCreate p u t d n today = Some rs" and "r \<in> set rs"
  shows "\<exists>dt. reminder_date r = formatDateString dt \<and> date_le dt (addYears 10 today)"
proof (cases "parseDateString d")
  case None
  with assms show ?thesis by (simp add: remindersToCreate_def)
next
  case (Some start)
  with assms(1) obtain nxt where
    "pushLoop p u t n (addYears 10 today) nxt [] = Some rs"
    by (auto simp: remindersToCreate_def split: option.splits if_splits)
  from pushLoop_bound[OF this] assms(2) show ?thesis by simp
qed

lemma createNextReminder_length:
  assumes "createNextReminder p u t d ft n today db = Some (Inr db')"
  shows "length (reminders db') \<le> length (reminders db) + 1"
proof -
  from assms obtain rs where rs: "nextReminderToCreate p u t d ft n today = Some rs"
    and db': "db' = db \<or> db' = db\<lparr>reminders := reminders db @ rs\<rparr>"
    by (auto simp: createNextReminder_def insertReminders_def split: option.splits list.splits)
  from nextReminderToCreate_length[OF rs] db' show ?thesis by auto
qed

lemma deleteReminders_length:
  "length (reminders (logged db (deleteReminders p tp dp db))) \<le> length (reminders db)"
  by (simp add: logged_def deleteReminders_def)

lemma DewormingTab_handleSubmit_length:
  assumes "DewormingTab_handleSubmit sel user form today newId db = Some (t, db')"
  shows "length (reminders db') \<le> length (reminders db) + 1"
  using assms
  by (auto simp: DewormingTab_handleSubmit_def insertDeworming_def Let_def
           dest!: createNextReminder_length split: if_splits option.splits sum.splits)

lemma length_filter_Suc: "length (filter P xs) \<le> Suc (length xs)"
  by (rule le_SucI) (rule length_filter_le)

lemma length_filter_trans: "n \<le> Suc (length (filter P xs)) \<Longrightarrow> n \<le> Suc (length xs)"
  by (erule le_trans) simp

lemma DewormingTab_handleUpdate_length:
  assumes "DewormingTab_handleUpdate sel user editing form today db = Some (t, db')"
  shows "length (reminders db') \<le> length (reminders db) + 1"
  using assms
  by (auto simp: DewormingTab_handleUpdate_def updateDeworming_def logged_def
                 deleteReminders_def Let_def length_filter_Suc
           dest!: createNextReminder_length intro: length_filter_trans
           split: if_splits option.splits sum.splits)

section \<open>The claims about the two computations\<close>

text \<open>
  C3 (as stated, refuted): a monthly deworming logged for 2040-01-01, today = 2024-06-01.
  The next occurrence, 2040-02-01, is after today + 10 years, and the run creates no
  reminder at all, not exactly one.
\<close>

theorem C3_no_reminder_counterexample:
  "nextReminderToCreate ''pet'' ''user'' ''Drontal'' ''2040-01-01'' ''months'' 1 (Date 2024 5 1) =
   Some []"
  by (simp add: nextReminderToCreate_def date_eval catchUp.simps dewormingStep_def
      dewormingReminder_def)

text \<open>
  C3 (amended): a run of the deworming recurrence with a positive interval returns at most
  one reminder and never the series: the single next occurrence (the first step from the
  logged date that is not before today, or the first step when the logged date is today or
  later) when that date is on or before today + 10 years, and no reminder otherwise. The
  create and the edit handler each add at most one row to the reminders.
\<close>

theorem C3_single_occurrence:
  assumes "valid_date today" and "1 \<le> frequencyValue"
    and "frequencyType = ''months'' \<or> frequencyType = ''year''"
    and "parseDateString dewormingDate = Some start"
  shows
   "(\<exists>k. 1 \<le> k \<and>
       nextReminderToCreate petId userId dewormingType dewormingDate frequencyType frequencyValue
           today =
         Some (if date_le ((dewormingStep frequencyType frequencyValue ^^ k) start)
                    (addYears 10 today)
               then [dewormingReminder petId userId dewormingType
                       ((dewormingStep frequencyType frequencyValue ^^ k) start)]
               else []) \<and>
       (date_lt start today \<longrightarrow>
          \<not> date_lt ((dewormingStep frequencyType frequencyValue ^^ k) start) today \<and>
          (\<forall>j. 1 \<le> j \<and> j < k \<longrightarrow>
             date_lt ((dewormingStep frequencyType frequencyValue ^^ j) start) today)) \<and>
       (\<not> date_lt start today \<longrightarrow> k = 1)) \<and>
    (\<forall>t db'. DewormingTab_handleSubmit selectedPetId user form today newId db = Some (t, db') \<longrightarrow>
       length (reminders db') \<le> length (reminders db) + 1) \<and>
    (\<forall>t db'. DewormingTab_handleUpdate selectedPetId user editingDeworming form today db =
         Some (t, db') \<longrightarrow>
       length (reminders db') \<le> length (reminders db) + 1)"
  using deworming_batch[OF assms] DewormingTab_handleSubmit_length DewormingTab_handleUpdate_length
  by blast

text \<open>
  C3, witness: a monthly deworming logged on 2024-01-31, today = 2024-06-01: one reminder,
  due on 2024-06-02.
\<close>

theorem C3_single_occurrence_witness:
  "valid_date (Date 2024 5 1) \<and> (1::int) \<le> 1 \<and>
   parseDateString ''2024-01-31'' = Some (Date 2024 0 31) \<and>
   (\<exists>k. 1 \<le> k \<and>
      [\<lparr> user_id = ''user'', pet_id = ''pet'', title = Desparasitacion @ '': Drontal'',
         description = ''Recordatorio para aplicar la '' @ desparasitacion @ '' Drontal'',
         reminder_date = ''2024-06-02'', type = ''deworming'' \<rparr>] =
      (if date_le ((dewormingStep ''months'' 1 ^^ k) (Date 2024 0 31)) (addYears 10 (Date 2024 5 1))
       then [dewormingReminder ''pet'' ''user'' ''Drontal''
               ((dewormingStep ''months'' 1 ^^ k) (Date 2024 0 31))]
       else []))"
proof -
  have v: "valid_date (Date 2024 5 1)" by (simp add: valid_date_def daysInMonth_def)
  have one: "(1::int) \<le> 1" by simp
  have p: "parseDateString ''2024-01-31'' = Some (Date 2024 0 31)" by (simp add: date_eval)
  have ft: "''months'' = ''months'' \<or> ''months'' = ''year''" by simp
  from C3_single_occurrence[OF v one ft p, of "''pet''" "''user''" "''Drontal''", THEN conjunct1]
  obtain k where "1 \<le> k"
    "nextReminderToCreate ''pet'' ''user'' ''Drontal'' ''2024-01-31'' ''months'' 1 (Date 2024 5 1) =
       Some (if date_le ((dewormingStep ''months'' 1 ^^ k) (Date 2024 0 31)) (addYears 10 (Date 2024 5 1))
             then [dewormingReminder ''pet'' ''user'' ''Drontal''
                     ((dewormingStep ''months'' 1 ^^ k) (Date 2024 0 31))]
             else [])"
    by blast
  then show ?thesis using v p unfolding drontal_batch by blast
qed

text \<open>
  C4: whatever the unit and the interval, every reminder that either computation returns
  is due on a date that is not later than today + 10 years (\<open>maxDate\<close>, today with 10 added
  to its year).
\<close>

theorem C4_horizon_bound:
  "(\<forall>rs. remindersToCreate petId userId vaccineType vaccineDate frequencyYears today = Some rs \<longrightarrow>
      (\<forall>r\<in>set rs. \<exists>d. reminder_date r = formatDateString d \<and> date_le d (addYears 10 today))) \<and>
   (\<forall>rs. nextReminderToCreate petId userId dewormingType dewormingDate frequencyType frequencyValue
           today = Some rs \<longrightarrow>
      (\<forall>r\<in>set rs. \<exists>d. reminder_date r = formatDateString d \<and> date_le d (addYears 10 today)))"
  using remindersToCreate_bound nextReminderToCreate_bound by blast

text \<open>
  C4, witness: the last reminder of the Rabies scenario (2034-03-15) and the reminder of the
  monthly deworming (2024-06-02) are due on or before 2034-06-01.
\<close>

theorem C4_horizon_bound_witness:
  "(\<exists>d. ''2034-03-15'' = formatDateString d \<and> date_le d (addYears 10 (Date 2024 5 1))) \<and>
   (\<exists>d. ''2024-06-02'' = formatDateString d \<and> date_le d (addYears 10 (Date 2024 5 1))) \<and>
   addYears 10 (Date 2024 5 1) = Date 2034 5 1"
proof -
  let ?r = "\<lparr> user_id = ''user'', pet_id = ''pet'', title = ''Vacuna: Rabies'',
              description = ''Recordatorio para aplicar la vacuna Rabies'',
              reminder_date = ''2034-03-15'', type = ''vaccination'' \<rparr>"
  let ?d = "\<lparr> user_id = ''user'', pet_id = ''pet'', title = Desparasitacion @ '': Drontal'',
           description = ''Recordatorio para aplicar la '' @ desparasitacion @ '' Drontal'',
           reminder_date = ''2024-06-02'', type = ''deworming'' \<rparr>"
  note b = C4_horizon_bound[of "''pet''" "''user''" "''Rabies''" "''2019-03-15''" 1 "Date 2024 5 1"
      "''Drontal''" "''2024-01-31''" "''months''" 1]
  from b[THEN conjunct1, rule_format, OF rabies_batch, of ?r]
  have 1: "\<exists>d. ''2034-03-15'' = formatDateString d \<and> date_le d (addYears 10 (Date 2024 5 1))"
    by simp
  from b[THEN conjunct2, rule_format, OF drontal_batch, of ?d]
  have 2: "\<exists>d. ''2024-06-02'' = formatDateString d \<and> date_le d (addYears 10 (Date 2024 5 1))"
    by simp
  have 3: "addYears 10 (Date 2024 5 1) = Date 2034 5 1" by (simp add: date_eval)
  from 1 2 3 show ?thesis by blast
qed

text \<open>
  C5 (as stated, refuted): with interval 0 and a logged date before today, neither
  computation returns: the catch-up loop adds 0 for ever. No error is raised, and the
  source has no validation of the interval anywhere.
\<close>

theorem C5_zero_interval_counterexample:
  "remindersToCreate ''pet'' ''user'' ''Rabies'' ''2019-03-15'' 0 (Date 2024 5 1) = None \<and>
   createReminders ''pet'' ''user'' ''Rabies'' ''2019-03-15'' 0 (Date 2024 5 1) emptyDatabase = None \<and>
   nextReminderToCreate ''pet'' ''user'' ''Drontal'' ''2019-03-15'' ''months'' 0 (Date 2024 5 1) = None \<and>
   createNextReminder ''pet'' ''user'' ''Drontal'' ''2019-03-15'' ''months'' 0 (Date 2024 5 1)
     emptyDatabase = None"
proof -
  have p: "parseDateString ''2019-03-15'' = Some (Date 2019 2 15)" by (simp add: date_eval)
  have lt: "date_lt (Date 2019 2 15) (Date 2024 5 1)" by (simp add: date_lt_def)
  have y: "addYears 0 (Date 2019 2 15) = Date 2019 2 15" by (simp add: date_eval)
  have m: "dewormingStep ''months'' 0 (Date 2019 2 15) = Date 2019 2 15"
    by (simp add: dewormingStep_def date_eval)
  have 1: "remindersToCreate ''pet'' ''user'' ''Rabies'' ''2019-03-15'' 0 (Date 2024 5 1) = None"
    using catchUp_stuck[of "addYears 0" "Date 2019 2 15" "Date 2024 5 1", OF y lt]
    by (simp add: remindersToCreate_def p lt y)
  have 2: "nextReminderToCreate ''pet'' ''user'' ''Drontal'' ''2019-03-15'' ''months'' 0
             (Date 2024 5 1) = None"
    using catchUp_stuck[of "dewormingStep ''months'' 0" "Date 2019 2 15" "Date 2024 5 1", OF m lt]
    by (simp add: nextReminderToCreate_def p lt m)
  from 1 2 show ?thesis by (simp add: createReminders_def createNextReminder_def)
qed

lemma VaccineTab_handleSubmit_falsy:
  assumes "\<not> truthy (if formCreateReminder form then parseInt (formReminderFrequency form) else None)"
  shows "\<exists>t db'. VaccineTab_handleSubmit sel user form today newId db = Some (t, db') \<and>
                 reminders db' = reminders db"
  using assms
  by (auto simp: VaccineTab_handleSubmit_def insertVaccination_def Let_def split: option.splits)

lemma DewormingTab_handleSubmit_falsy:
  assumes "\<not> truthy (if formDewormingCreateReminder form
                      then snd (frequencyOf (formDewormingFrequency form)) else None)"
  shows "\<exists>t db'. DewormingTab_handleSubmit sel user form today newId db = Some (t, db') \<and>
                 reminders db' = reminders db"
  using assms
  by (auto simp: DewormingTab_handleSubmit_def insertDeworming_def Let_def split: option.splits)

lemma remindersToCreate_returns:
  assumes "valid_date today" and "1 \<le> n"
  shows "\<exists>rs. remindersToCreate p u l d n today = Some rs"
proof (cases "parseDateString d")
  case None
  then show ?thesis by (simp add: remindersToCreate_def)
next
  case (Some start)
  from vaccine_batch[OF assms Some, of p u l] show ?thesis by blast
qed

lemma nextReminderToCreate_returns:
  assumes "valid_date today" and "1 \<le> n" and "ft = ''months'' \<or> ft = ''year''"
  shows "\<exists>rs. nextReminderToCreate p u l d ft n today = Some rs"
proof (cases "parseDateString d")
  case None
  then show ?thesis by (simp add: nextReminderToCreate_def)
next
  case (Some start)
  from deworming_batch[OF assms Some, of p u l] show ?thesis by blast
qed

text \<open>
  C5 (amended): for every interval of at least 1 both computations terminate and return
  their reminders. The interval is never validated; instead the create handlers run the
  computation only when the parsed interval is truthy, so with an interval of 0 (or one
  that is not a number) they end normally and leave the reminders as they were.
\<close>

theorem C5_positive_interval_returns:
  assumes "valid_date today" and "1 \<le> interval"
    and "frequencyType = ''months'' \<or> frequencyType = ''year''"
  shows
   "(\<exists>rs. remindersToCreate petId userId label occurredOn interval today = Some rs) \<and>
    (\<exists>rs. nextReminderToCreate petId userId label occurredOn frequencyType interval today = Some rs) \<and>
    (\<not> truthy (if formCreateReminder vform then parseInt (formReminderFrequency vform) else None) \<longrightarrow>
       (\<exists>t db'. VaccineTab_handleSubmit selectedPetId user vform today newId db = Some (t, db') \<and>
                reminders db' = reminders db)) \<and>
    (\<not> truthy (if formDewormingCreateReminder dform
                then snd (frequencyOf (formDewormingFrequency dform)) else None) \<longrightarrow>
       (\<exists>t db'. DewormingTab_handleSubmit selectedPetId user dform today newId db = Some (t, db') \<and>
                reminders db' = reminders db))"
proof (intro conjI impI)
  show "\<exists>rs. remindersToCreate petId userId label occurredOn interval today = Some rs"
    by (rule remindersToCreate_returns[OF assms(1,2)])
  show "\<exists>rs. nextReminderToCreate petId userId label occurredOn frequencyType interval today = Some rs"
    by (rule nextReminderToCreate_returns[OF assms])
next
  assume "\<not> truthy (if formCreateReminder vform then parseInt (formReminderFrequency vform) else None)"
  then show "\<exists>t db'. VaccineTab_handleSubmit selectedPetId user vform today newId db = Some (t, db') \<and>
                reminders db' = reminders db"
    by (rule VaccineTab_handleSubmit_falsy)
next
  assume "\<not> truthy (if formDewormingCreateReminder dform
                then snd (frequencyOf (formDewormingFrequency dform)) else None)"
  then show "\<exists>t db'. DewormingTab_handleSubmit selectedPetId user dform today newId db = Some (t, db') \<and>
                reminders db' = reminders db"
    by (rule DewormingTab_handleSubmit_falsy)
qed

text \<open>
  C5, witness: the Rabies scenario returns with interval 1, and \<open>handleSubmit\<close> with the
  frequency \<open>0\<close> creates no reminder.
\<close>

theorem C5_positive_interval_returns_witness:
  "valid_date (Date 2024 5 1) \<and> (1::int) \<le> 1 \<and>
   (\<exists>rs. remindersToCreate ''pet'' ''user'' ''Rabies'' ''2019-03-15'' 1 (Date 2024 5 1) = Some rs) \<and>
   (\<exists>rs. nextReminderToCreate ''pet'' ''user'' ''Rabies'' ''2019-03-15'' ''months'' 1 (Date 2024 5 1)
           = Some rs) \<and>
   parseInt ''0'' = Some 0 \<and>
   (\<exists>t db'. VaccineTab_handleSubmit ''pet'' (Some ''user'')
       \<lparr> formVaccineType = ''Rabies'', formDate = ''2019-03-15'', formNotes = [],
         formCreateReminder = True, formReminderFrequency = ''0'' \<rparr>
       (Date 2024 5 1) ''v1'' emptyDatabase = Some (t, db') \<and> reminders db' = [])"
proof -
  have v: "valid_date (Date 2024 5 1)" by (simp add: valid_date_def daysInMonth_def)
  have one: "(1::int) \<le> 1" by simp
  have ft: "''months'' = ''months'' \<or> ''months'' = ''year''" by simp
  have z: "parseInt ''0'' = Some 0" by (simp add: parseInt_def isDigit_def digitsValue_def)
  let ?form = "\<lparr> formVaccineType = ''Rabies'', formDate = ''2019-03-15'', formNotes = [],
         formCreateReminder = True, formReminderFrequency = ''0'' \<rparr>"
  have f: "\<not> truthy (if formCreateReminder ?form then parseInt (formReminderFrequency ?form) else None)"
    by (simp add: z truthy_def)
  note c = C5_positive_interval_returns[OF v one ft, of "''pet''" "''user''" "''Rabies''"
      "''2019-03-15''" ?form "''pet''" "Some ''user''" "''v1''" emptyDatabase]
  from c[THEN conjunct1] c[THEN conjunct2, THEN conjunct1]
    c[THEN conjunct2, THEN conjunct2, THEN conjunct1, rule_format, OF f] v z
  show ?thesis by (simp add: emptyDatabase_def)
qed

section \<open>Formatting and parsing a date\<close>

lemma digitChar_props:
  assumes "n < 10"
  shows "isDigit (digitChar n)" and "of_char (digitChar n) = 48 + n" and "digitChar n \<noteq> CHR ''-''"
proof -
  from assms have "n \<in> {0, 1, 2, 3, 4, 5, 6, 7, 8, 9}" by auto
  then show "isDigit (digitChar n)" and "of_char (digitChar n) = 48 + n"
    and "digitChar n \<noteq> CHR ''-''"
    by (auto simp: isDigit_def digitChar_def)
qed

lemma digitsValue_snoc: "digitsValue (s @ [c]) = 10 * digitsValue s + (of_char c - 48)"
  by (simp add: digitsValue_def)

lemma digits_props:
  "list_all isDigit (digits n) \<and> digitsValue (digits n) = n \<and> CHR ''-'' \<notin> set (digits n) \<and>
   digits n \<noteq> []"
proof (induction n rule: digits.induct)
  case (1 n)
  show ?case
  proof (cases "n < 10")
    case True
    with digitChar_props[of n] show ?thesis
      by (subst (1 2 3 4) digits.simps) (simp add: digitsValue_def)
  next
    case False
    have m: "n mod 10 < 10" by simp
    from False 1 digitChar_props[OF m] show ?thesis
      by (subst (1 2 3 4) digits.simps) (auto simp: digitsValue_snoc)
  qed
qed

lemma digitsValue_zeros: "digitsValue (replicate k CHR ''0'' @ s) = digitsValue s"
proof -
  have "foldl (\<lambda>acc c. 10 * acc + (of_char c - 48)) (0::nat) (replicate k CHR ''0'') = 0"
    by (induction k) simp_all
  then show ?thesis by (simp add: digitsValue_def)
qed

lemma Number_padded:
  assumes "0 \<le> i"
  shows "Number (padStart2 (String i)) = Some i" and "CHR ''-'' \<notin> set (padStart2 (String i))"
proof -
  from assms have s: "String i = digits (nat i)" by (simp add: String_def)
  have z: "isDigit CHR ''0''" by (simp add: isDigit_def)
  from digits_props[of "nat i"] z show "Number (padStart2 (String i)) = Some i"
    using assms by (auto simp: Number_def padStart2_def s digitsValue_zeros list_all_iff)
  from digits_props[of "nat i"] show "CHR ''-'' \<notin> set (padStart2 (String i))"
    by (auto simp: padStart2_def s)
qed

lemma Number_String:
  assumes "0 \<le> i"
  shows "Number (String i) = Some i" and "CHR ''-'' \<notin> set (String i)"
  using assms digits_props[of "nat i"] by (simp_all add: Number_def String_def)

lemma split_no_sep: "sep \<notin> set a \<Longrightarrow> split sep a = [a]"
  by (induction a) auto

lemma split_at_sep: "sep \<notin> set a \<Longrightarrow> split sep (a @ sep # rest) = a # split sep rest"
  by (induction a) auto

lemma split_three:
  "sep \<notin> set a \<Longrightarrow> sep \<notin> set b \<Longrightarrow> sep \<notin> set c \<Longrightarrow>
   split sep (a @ [sep] @ b @ [sep] @ c) = [a, b, c]"
  by (simp add: split_at_sep split_no_sep)

lemma newDate_valid_fields:
  assumes "valid_date (Date y m d)" and "100 \<le> y"
  shows "newDate y m d = Date y m d"
proof -
  from assms(1) have v: "0 \<le> m" "m \<le> 11" "1 \<le> d" "d \<le> daysInMonth y m"
    by (simp_all add: valid_date_def)
  then have "m div 12 = 0" "m mod 12 = m" by simp_all
  with v assms(2) show ?thesis by (simp add: newDate_def MakeDay_def normDay_valid_fields)
qed

text \<open>
  C7 (as stated, refuted): the 15th of March of the year 50 is a valid date (a \<open>Date\<close> gets
  there by \<open>setFullYear(50)\<close>). It is formatted as \<open>50-03-15\<close>, and parsing that string
  gives 15 March 1950, because \<open>new Date(50, 2, 15)\<close> reads a year from 0 to 99 as 1900 + year.
\<close>

theorem C7_two_digit_year_counterexample:
  "valid_date (Date 50 2 15) \<and> formatDateString (Date 50 2 15) = ''50-03-15'' \<and>
   parseDateString ''50-03-15'' = Some (Date 1950 2 15)"
  by (simp add: valid_date_def date_eval)

text \<open>
  C7 (amended): for every valid calendar date from the year 100 on,
  \<open>parseDateString (formatDateString d)\<close> is a valid Date with the year, month and day of
  \<open>d\<close>. Both functions go through the local fields of the Date only (\<open>getFullYear\<close>,
  \<open>getMonth\<close>, \<open>getDate\<close>, \<open>new Date(year, month - 1, day)\<close>), which is all a \<open>date\<close> of this
  theory holds: no UTC offset enters the computation.
\<close>

theorem C7_round_trip:
  assumes "valid_date d" and "100 \<le> getFullYear d"
  shows "parseDateString (formatDateString d) = Some d"
proof -
  obtain y m dd where d: "d = Date y m dd" by (cases d)
  from assms d have v: "valid_date (Date y m dd)" "100 \<le> y" by simp_all
  then have b: "0 \<le> y" "0 \<le> m + 1" "0 \<le> dd" by (simp_all add: valid_date_def)
  have "split CHR ''-'' (formatDateString d) =
        [String y, padStart2 (String (m + 1)), padStart2 (String dd)]"
    unfolding formatDateString_def d date.sel
    using Number_String(2)[OF b(1)] Number_padded(2)[OF b(2)] Number_padded(2)[OF b(3)]
    by (simp add: split_at_sep split_no_sep)
  then have "parseDateString (formatDateString d) = Some (newDate y (m + 1 - 1) dd)"
    using Number_String(1)[OF b(1)] Number_padded(1)[OF b(2)] Number_padded(1)[OF b(3)]
    by (simp add: parseDateString_def)
  with newDate_valid_fields[OF v] d show ?thesis by simp
qed

text \<open>C7, witness: 29 February 2024.\<close>

theorem C7_round_trip_witness:
  "valid_date (Date 2024 1 29) \<and> (100::int) \<le> getFullYear (Date 2024 1 29) \<and>
   formatDateString (Date 2024 1 29) = ''2024-02-29'' \<and>
   parseDateString ''2024-02-29'' = Some (Date 2024 1 29)"
proof -
  have v: "valid_date (Date 2024 1 29)" by (simp add: valid_date_def daysInMonth_def isLeapYear_def)
  have y: "(100::int) \<le> getFullYear (Date 2024 1 29)" by simp
  have f: "formatDateString (Date 2024 1 29) = ''2024-02-29''" by (simp add: date_eval)
  from C7_round_trip[OF v y] v y f show ?thesis by simp
qed

section \<open>The time value of a date\<close>

lemma div_succ:
  fixes z n :: int
  assumes "1 < n"
  shows "(z + 1) div n = z div n + (if (z + 1) mod n = 0 then 1 else 0)"
proof -
  have r: "0 \<le> z mod n" "z mod n < n" using assms by simp_all
  have e: "z = n * (z div n) + z mod n" by simp
  show ?thesis
  proof (cases "z mod n + 1 = n")
    case True
    have "z + 1 = n * (z div n) + n"
      using e True by linarith
    then have "z + 1 = n * (z div n + 1) + 0"
      by (simp add: distrib_left)
    from int_div_pos_eq[OF this] int_mod_pos_eq[OF this] assms
    show ?thesis by simp
  next
    case False
    with r have lt: "0 \<le> z mod n + 1" "z mod n + 1 < n" by simp_all
    have "z + 1 = n * (z div n) + (z mod n + 1)"
      using e by linarith
    from int_div_pos_eq[OF this lt] int_mod_pos_eq[OF this lt] r(1)
    show ?thesis by simp
  qed
qed

lemma mod_shift:
  "((y::int) - 1968) mod 4 = y mod 4" "(y - 1900) mod 100 = y mod 100"
  "(y - 1600) mod 400 = y mod 400"
proof -
  have "(y - 1968 + 492 * 4) mod 4 = (y - 1968) mod 4" by (rule mod_mult_self1)
  then show "(y - 1968) mod 4 = y mod 4" by simp
  have "(y - 1900 + 19 * 100) mod 100 = (y - 1900) mod 100" by (rule mod_mult_self1)
  then show "(y - 1900) mod 100 = y mod 100" by simp
  have "(y - 1600 + 4 * 400) mod 400 = (y - 1600) mod 400" by (rule mod_mult_self1)
  then show "(y - 1600) mod 400 = y mod 400" by simp
qed

lemma mod_400_100_4:
  "(y::int) mod 400 = 0 \<Longrightarrow> y mod 100 = 0" "(y::int) mod 100 = 0 \<Longrightarrow> y mod 4 = 0"
proof -
  have a: "(100::int) dvd 400" "(4::int) dvd 100" by simp_all
  show "y mod 400 = 0 \<Longrightarrow> y mod 100 = 0"
    using dvd_trans[OF a(1), of y] by (simp add: mod_eq_0_iff_dvd)
  show "y mod 100 = 0 \<Longrightarrow> y mod 4 = 0"
    using dvd_trans[OF a(2), of y] by (simp add: mod_eq_0_iff_dvd)
qed

lemma DayFromYear_Suc:
  "DayFromYear (y + 1) = DayFromYear y + 365 + (if isLeapYear y then 1 else 0)"
proof -
  define a b c where "a = (y - 1969) div 4" and "b = (y - 1901) div 100"
    and "c = (y - 1601) div 400"
  define p q r where "p = (y mod 4 = 0)" and "q = (y mod 100 = 0)" and "r = (y mod 400 = 0)"
  have 4: "(y + 1 - 1969) div 4 = a + (if p then 1 else 0)"
    using div_succ[of 4 "y - 1969"] by (simp add: mod_shift a_def p_def)
  have 100: "(y + 1 - 1901) div 100 = b + (if q then 1 else 0)"
    using div_succ[of 100 "y - 1901"] by (simp add: mod_shift b_def q_def)
  have 400: "(y + 1 - 1601) div 400 = c + (if r then 1 else 0)"
    using div_succ[of 400 "y - 1601"] by (simp add: mod_shift c_def r_def)
  have rq: "r \<Longrightarrow> q" and qp: "q \<Longrightarrow> p"
    using mod_400_100_4[of y] by (simp_all add: p_def q_def r_def)
  have l: "isLeapYear y = (p \<and> (\<not> q \<or> r))" by (simp add: isLeapYear_def p_def q_def r_def)
  have "DayFromYear (y + 1) =
        365 * (y + 1 - 1970) + (a + (if p then 1 else 0)) - (b + (if q then 1 else 0)) +
        (c + (if r then 1 else 0))"
    unfolding DayFromYear_def 4 100 400 ..
  moreover have "DayFromYear y = 365 * (y - 1970) + a - b + c"
    unfolding DayFromYear_def a_def b_def c_def ..
  ultimately show ?thesis
    unfolding l using rq qp by (cases p; cases q; cases r) simp_all
qed

lemma DayFromYear_mono:
  assumes "y < y'"
  shows "DayFromYear y + 365 + (if isLeapYear y then 1 else 0) \<le> DayFromYear y'"
proof -
  have "y + 1 \<le> y'" using assms by simp
  then have "DayFromYear (y + 1) \<le> DayFromYear y'"
  proof (induction y' rule: int_ge_induct)
    case base
    show ?case by simp
  next
    case (step i)
    then show ?case using DayFromYear_Suc[of i] by (simp split: if_splits)
  qed
  then show ?thesis by (simp add: DayFromYear_Suc)
qed

lemma daysBeforeMonth_0: "daysBeforeMonth y 0 = 0"
  by (simp add: daysBeforeMonth_def)

lemma daysBeforeMonth_Suc:
  "0 \<le> m \<Longrightarrow> daysBeforeMonth y (m + 1) = daysBeforeMonth y m + daysInMonth y m"
  by (simp add: daysBeforeMonth_def upto_rec2)

lemma daysBeforeMonth_mono:
  assumes "0 \<le> m" and "m < m'"
  shows "daysBeforeMonth y m + daysInMonth y m \<le> daysBeforeMonth y m'"
proof -
  have "m + 1 \<le> m'" using assms by simp
  then have "daysBeforeMonth y (m + 1) \<le> daysBeforeMonth y m'"
  proof (induction m' rule: int_ge_induct)
    case base
    show ?case by simp
  next
    case (step i)
    with assms(1) daysBeforeMonth_Suc[of i y] daysInMonth_bounds[of y i] show ?case by simp
  qed
  with assms(1) show ?thesis by (simp add: daysBeforeMonth_Suc)
qed


lemma daysBeforeMonth_12: "daysBeforeMonth y 12 = 365 + (if isLeapYear y then 1 else 0)"
  by (simp add: daysBeforeMonth_def upto.simps daysInMonth_def)

lemma dayInYear_bounds:
  assumes "valid_date (Date y m d)"
  shows "0 \<le> daysBeforeMonth y m + (d - 1)"
    and "daysBeforeMonth y m + (d - 1) < 365 + (if isLeapYear y then 1 else 0)"
proof -
  from assms have v: "0 \<le> m" "m \<le> 11" "1 \<le> d" "d \<le> daysInMonth y m"
    by (simp_all add: valid_date_def)
  have "daysBeforeMonth y 0 \<le> daysBeforeMonth y m"
  proof (cases "m = 0")
    case False
    with v have "0 < m" by simp
    from daysBeforeMonth_mono[OF _ this, of y] daysInMonth_bounds[of y 0] show ?thesis by simp
  qed simp
  with v show "0 \<le> daysBeforeMonth y m + (d - 1)" by (simp add: daysBeforeMonth_0)
  have "m < 12" using v by simp
  from daysBeforeMonth_mono[OF v(1) this, of y] v
  show "daysBeforeMonth y m + (d - 1) < 365 + (if isLeapYear y then 1 else 0)"
    by (simp add: daysBeforeMonth_12 split: if_splits)
qed

lemma utcTime_strict:
  assumes "valid_date a" and "valid_date b" and "date_lt a b"
  shows "utcTime a < utcTime b"
proof -
  obtain ya ma da where a: "a = Date ya ma da" by (cases a)
  obtain yb mb db where b: "b = Date yb mb db" by (cases b)
  from assms(1,2) a b have va: "0 \<le> ma" "1 \<le> da" "da \<le> daysInMonth ya ma"
    and vb: "0 \<le> mb" "1 \<le> db"
    by (simp_all add: valid_date_def)
  have "DayFromYear ya + daysBeforeMonth ya ma + (da - 1) <
        DayFromYear yb + daysBeforeMonth yb mb + (db - 1)"
  proof -
    consider "ya < yb" | "ya = yb" "ma < mb" | "ya = yb" "ma = mb" "da < db"
      using assms(3) a b by (auto simp: date_lt_def)
    then show ?thesis
    proof cases
      case 1
      from DayFromYear_mono[OF 1] dayInYear_bounds(2)[of ya ma da] dayInYear_bounds(1)[of yb mb db]
        assms(1,2) a b
      show ?thesis by simp
    next
      case 2
      from daysBeforeMonth_mono[OF va(1) 2(2), of ya] va vb 2(1) show ?thesis by simp
    next
      case 3
      then show ?thesis by simp
    qed
  qed
  then show ?thesis by (simp add: utcTime_def a b)
qed

lemma date_lt_total: "a \<noteq> b \<Longrightarrow> date_lt a b \<or> date_lt b a"
  by (cases a; cases b) (auto simp: date_lt_def)

lemma utcTime_le_iff:
  assumes "valid_date a" and "valid_date b"
  shows "utcTime a \<le> utcTime b \<longleftrightarrow> \<not> date_lt b a"
  using utcTime_strict[OF assms] utcTime_strict[OF assms(2,1)] date_lt_total[of a b]
  by (cases "a = b") auto

lemma utcTime_inj:
  assumes "valid_date a" and "valid_date b"
  shows "utcTime a = utcTime b \<longleftrightarrow> a = b"
  using utcTime_strict[OF assms] utcTime_strict[OF assms(2,1)] date_lt_total[of a b]
  by (cases "a = b") auto

lemma isoDate_valid: "isoDate s = Some d \<Longrightarrow> valid_date d"
  by (auto simp: isoDate_def valid_date_def Let_def split: if_splits)

section \<open>Sorting\<close>

lemma arraySort_Nil: "arraySort compare [] = []"
  by (simp add: arraySort_def)

lemma arraySort_snoc: "arraySort compare (xs @ [x]) = insertSorted compare x (arraySort compare xs)"
  by (simp add: arraySort_def)

lemma mset_insertSorted: "mset (insertSorted compare x ys) = add_mset x (mset ys)"
  by (induction ys) simp_all

lemma mset_arraySort: "mset (arraySort compare xs) = mset xs"
  by (induction xs rule: rev_induct) (simp_all add: arraySort_Nil arraySort_snoc mset_insertSorted)

lemma set_arraySort: "set (arraySort compare xs) = set xs"
  using mset_arraySort[of compare xs] by (metis set_mset_mset)

lemma length_arraySort: "length (arraySort compare xs) = length xs"
  using mset_arraySort[of compare xs] by (metis size_mset)

text \<open>
  When the comparator agrees with a key on the elements at hand (it is not positive exactly
  when the first key is at most the second), sorting orders by the key and keeps the
  elements of equal key in their order.
\<close>

lemma sorted_insertSorted:
  assumes agree: "\<And>a b. a \<in> S \<Longrightarrow> b \<in> S \<Longrightarrow> (SortCompare compare a b \<le> 0) = (key a \<le> (key b :: int))"
    and "x \<in> S" and "set ys \<subseteq> S" and "sorted_wrt (\<lambda>a b. key a \<le> key b) ys"
  shows "sorted_wrt (\<lambda>a b. key a \<le> key b) (insertSorted compare x ys)"
  using assms(3,4)
proof (induction ys)
  case Nil
  show ?case by simp
next
  case (Cons y ys)
  have y: "y \<in> S" and ys: "set ys \<subseteq> S" using Cons.prems(1) by simp_all
  show ?case
  proof (cases "SortCompare compare y x \<le> 0")
    case True
    then have "key y \<le> key x" using agree[OF y assms(2)] by simp
    moreover have "set (insertSorted compare x ys) = insert x (set ys)"
      using mset_insertSorted[of compare x ys] by (metis set_mset_mset set_mset_add_mset_insert)
    ultimately show ?thesis using True Cons by auto
  next
    case False
    then have "key x \<le> key y" using agree[OF y assms(2)] by simp
    with False Cons.prems(2) show ?thesis by fastforce
  qed
qed

lemma filter_insertSorted:
  assumes agree: "\<And>a b. a \<in> S \<Longrightarrow> b \<in> S \<Longrightarrow> (SortCompare compare a b \<le> 0) = (key a \<le> (key b :: int))"
    and "x \<in> S" and "set ys \<subseteq> S" and "sorted_wrt (\<lambda>a b. key a \<le> key b) ys"
  shows "filter (\<lambda>e. key e = v) (insertSorted compare x ys) = filter (\<lambda>e. key e = v) (ys @ [x])"
  using assms(3,4)
proof (induction ys)
  case Nil
  show ?case by simp
next
  case (Cons y ys)
  have y: "y \<in> S" and ys: "set ys \<subseteq> S" using Cons.prems(1) by simp_all
  show ?case
  proof (cases "SortCompare compare y x \<le> 0")
    case True
    with Cons ys show ?thesis by simp
  next
    case False
    then have lt: "key x < key y" using agree[OF y assms(2)] by simp
    have later: "\<forall>z\<in>set (y # ys). key x < key z" using lt Cons.prems(2) by auto
    show ?thesis
    proof (cases "key x = v")
      case True
      with later have "key y \<noteq> v" "filter (\<lambda>e. key e = v) ys = []"
        by (auto simp: filter_empty_conv)
      with True False show ?thesis by simp
    next
      case F: False
      with False show ?thesis by simp
    qed
  qed
qed

lemma arraySort_sorted_stable:
  assumes agree: "\<And>a b. a \<in> set xs \<Longrightarrow> b \<in> set xs \<Longrightarrow>
      (SortCompare compare a b \<le> 0) = (key a \<le> (key b :: int))"
  shows "sorted_wrt (\<lambda>a b. key a \<le> key b) (arraySort compare xs) \<and>
         (\<forall>v. filter (\<lambda>e. key e = v) (arraySort compare xs) = filter (\<lambda>e. key e = v) xs)"
  using assms
proof (induction xs rule: rev_induct)
  case Nil
  show ?case by (simp add: arraySort_Nil)
next
  case (snoc x xs)
  have ag: "\<And>a b. a \<in> set (xs @ [x]) \<Longrightarrow> b \<in> set (xs @ [x]) \<Longrightarrow>
      (SortCompare compare a b \<le> 0) = (key a \<le> key b)" using snoc.prems by blast
  then have IH: "sorted_wrt (\<lambda>a b. key a \<le> key b) (arraySort compare xs)"
      "\<And>v. filter (\<lambda>e. key e = v) (arraySort compare xs) = filter (\<lambda>e. key e = v) xs"
    using snoc.IH by auto
  have x: "x \<in> set (xs @ [x])" by simp
  have sub: "set (arraySort compare xs) \<subseteq> set (xs @ [x])" by (auto simp: set_arraySort)
  have 1: "sorted_wrt (\<lambda>a b. key a \<le> key b) (arraySort compare (xs @ [x]))"
    unfolding arraySort_snoc by (rule sorted_insertSorted[OF ag x sub IH(1)])
  have 2: "filter (\<lambda>e. key e = v) (arraySort compare (xs @ [x])) = filter (\<lambda>e. key e = v) (xs @ [x])" for v
    using filter_insertSorted[OF ag x sub IH(1), of v] IH(2)[of v]
    by (simp only: arraySort_snoc filter_append)
  from 1 2 show ?case by blast
qed

section \<open>The timeline\<close>

lemmas iso_eval = getTime_def isoDate_def isDigit_def digitsValue_def daysInMonth_def isLeapYear_def
  utcTime_def DayFromYear_def daysBeforeMonth_def upto.simps timeDifference_def

lemma timeDifference_iso:
  assumes "isoDate s = Some a" and "isoDate t = Some b"
  shows "timeDifference s t = Some (utcTime a - utcTime b)"
  using assms by (simp add: timeDifference_def getTime_def)

lemma timeline_sorted:
  fixes xs :: "timelineEvent list"
  assumes iso: "\<forall>e\<in>set xs. isoDate (event_date e) \<noteq> None"
  shows "mset (arraySort (\<lambda>a b. timeDifference (event_date b) (event_date a)) xs) = mset xs"
    and "sorted_wrt (\<lambda>a b. \<not> date_lt (the (isoDate (event_date a))) (the (isoDate (event_date b))))
           (arraySort (\<lambda>a b. timeDifference (event_date b) (event_date a)) xs)"
    and "filter (\<lambda>e. isoDate (event_date e) = Some day)
           (arraySort (\<lambda>a b. timeDifference (event_date b) (event_date a)) xs) =
         filter (\<lambda>e. isoDate (event_date e) = Some day) xs"
proof -
  let ?cmp = "\<lambda>a b. timeDifference (event_date b) (event_date a)"
  let ?key = "\<lambda>e. - utcTime (the (isoDate (event_date e)))"
  let ?out = "arraySort ?cmp xs"
  show "mset ?out = mset xs" by (rule mset_arraySort)
  have v: "valid_date (the (isoDate (event_date e)))" if "e \<in> set xs" for e
    using iso that isoDate_valid by fastforce
  have agree: "(SortCompare ?cmp a b \<le> 0) = (?key a \<le> ?key b)"
    if "a \<in> set xs" "b \<in> set xs" for a b
  proof -
    from iso that obtain da db where d: "isoDate (event_date a) = Some da"
      "isoDate (event_date b) = Some db" by fastforce
    then show ?thesis by (simp add: SortCompare_def timeDifference_iso)
  qed
  from arraySort_sorted_stable[of xs ?cmp ?key, OF agree]
  have s: "sorted_wrt (\<lambda>a b. ?key a \<le> ?key b) ?out"
    and st: "\<And>v. filter (\<lambda>e. ?key e = v) ?out = filter (\<lambda>e. ?key e = v) xs"
    by blast+
  have so: "set ?out = set xs" by (rule set_arraySort)
  show "sorted_wrt (\<lambda>a b. \<not> date_lt (the (isoDate (event_date a))) (the (isoDate (event_date b)))) ?out"
  proof (rule sorted_wrt_mono_rel[OF _ s])
    fix a b assume "a \<in> set ?out" "b \<in> set ?out" "?key a \<le> ?key b"
    then have "a \<in> set xs" "b \<in> set xs"
      "utcTime (the (isoDate (event_date b))) \<le> utcTime (the (isoDate (event_date a)))"
      using so by simp_all
    with utcTime_le_iff[OF v v, of b a]
    show "\<not> date_lt (the (isoDate (event_date a))) (the (isoDate (event_date b)))" by simp
  qed
  show "filter (\<lambda>e. isoDate (event_date e) = Some day) ?out =
        filter (\<lambda>e. isoDate (event_date e) = Some day) xs"
  proof (cases "valid_date day")
    case True
    have k: "(isoDate (event_date e) = Some day) = (?key e = - utcTime day)" if "e \<in> set xs" for e
    proof -
      from iso that obtain d where d: "isoDate (event_date e) = Some d" by fastforce
      with utcTime_inj[OF isoDate_valid[OF d] True] show ?thesis by simp
    qed
    have "filter (\<lambda>e. isoDate (event_date e) = Some day) ?out =
          filter (\<lambda>e. ?key e = - utcTime day) ?out"
      by (rule filter_cong) (simp_all add: k so)
    also have "\<dots> = filter (\<lambda>e. ?key e = - utcTime day) xs" by (rule st)
    also have "\<dots> = filter (\<lambda>e. isoDate (event_date e) = Some day) xs"
      by (rule filter_cong) (simp_all add: k)
    finally show ?thesis .
  next
    case False
    have n: "(isoDate (event_date e) = Some day) = False" for e :: timelineEvent
      using False isoDate_valid by blast
    show ?thesis by (simp add: n)
  qed
qed

lemma example_timeline:
  "map (\<lambda>e. (event_type e, event_id e, event_date e))
     (fetchAllEvents (\<lambda>n. ''12'') [exampleWeight] [exampleVaccine] [exampleDeworming]) =
   [(DewormingEvent, ''d1'', ''2024-02-01''), (WeightEvent, ''w1'', ''2024-01-10''),
    (VaccineEvent, ''v1'', ''2024-01-10'')]"
  by (simp add: fetchAllEvents_def allEvents_def arraySort_def SortCompare_def iso_eval
      exampleWeight_def exampleVaccine_def exampleDeworming_def)

lemma allEvents_dates:
  assumes "\<forall>r\<in>set weightData. isoDate (weight_date r) \<noteq> None"
    and "\<forall>r\<in>set vaccineData. isoDate (vaccination_date r) \<noteq> None"
    and "\<forall>r\<in>set dewormingData. isoDate (deworming_date r) \<noteq> None"
  shows "\<forall>e\<in>set (allEvents toString weightData vaccineData dewormingData).
           isoDate (event_date e) \<noteq> None"
  using assms by (auto simp: allEvents_def)

lemma allEvents_day:
  "filter (\<lambda>e. isoDate (event_date e) = Some day)
     (allEvents toString weightData vaccineData dewormingData) =
   map (\<lambda>record. \<lparr> event_id = weight_id record, event_type = WeightEvent,
                         event_date = weight_date record,
                         event_title = toString (weight record) @ '' kg'',
                         event_description = weight_notes record, event_icon = ''Scale'',
                         event_color = ''text-blue-600 dark:text-blue-400'' \<rparr>)
     (filter (\<lambda>r. isoDate (weight_date r) = Some day) weightData) @
   map (\<lambda>record. \<lparr> event_id = vaccination_id record, event_type = VaccineEvent,
                         event_date = vaccination_date record,
                         event_title = vaccine_type record,
                         event_description = vaccination_notes record, event_icon = ''Syringe'',
                         event_color = ''text-green-600 dark:text-green-400'' \<rparr>)
     (filter (\<lambda>r. isoDate (vaccination_date r) = Some day) vaccineData) @
   map (\<lambda>record. \<lparr> event_id = deworming_id record, event_type = DewormingEvent,
                         event_date = deworming_date record,
                         event_title = deworming_type record,
                         event_description = deworming_notes record, event_icon = ''Bug'',
                         event_color = ''text-orange-600 dark:text-orange-400'' \<rparr>)
     (filter (\<lambda>r. isoDate (deworming_date r) = Some day) dewormingData)"
  by (simp add: allEvents_def filter_map o_def)

text \<open>
  C8: when every row of the three answers has a date of the calendar, the timeline holds
  exactly one entry for each weight record, each vaccine and each deworming, built from
  the row as the three loops build it, and it is sorted by date, latest first. The entries
  of one and the same day are the weight records of that day, then its vaccines, then its
  dewormings, each group in the order of its answer: the order in which the loops inserted
  them. For one weight record and one vaccine of 2024-01-10 and one deworming of
  2024-02-01 the timeline is the deworming, then the weight record, then the vaccine.
\<close>

theorem C8_timeline_order:
  "((\<forall>r\<in>set weightData. isoDate (weight_date r) \<noteq> None) \<and>
    (\<forall>r\<in>set vaccineData. isoDate (vaccination_date r) \<noteq> None) \<and>
    (\<forall>r\<in>set dewormingData. isoDate (deworming_date r) \<noteq> None) \<longrightarrow>
      mset (fetchAllEvents toString weightData vaccineData dewormingData) =
        mset (map (\<lambda>record. \<lparr> event_id = weight_id record, event_type = WeightEvent,
                         event_date = weight_date record,
                         event_title = toString (weight record) @ '' kg'',
                         event_description = weight_notes record, event_icon = ''Scale'',
                         event_color = ''text-blue-600 dark:text-blue-400'' \<rparr>) weightData @
              map (\<lambda>record. \<lparr> event_id = vaccination_id record, event_type = VaccineEvent,
                         event_date = vaccination_date record,
                         event_title = vaccine_type record,
                         event_description = vaccination_notes record, event_icon = ''Syringe'',
                         event_color = ''text-green-600 dark:text-green-400'' \<rparr>) vaccineData @
              map (\<lambda>record. \<lparr> event_id = deworming_id record, event_type = DewormingEvent,
                         event_date = deworming_date record,
                         event_title = deworming_type record,
                         event_description = deworming_notes record, event_icon = ''Bug'',
                         event_color = ''text-orange-600 dark:text-orange-400'' \<rparr>) dewormingData) \<and>
      sorted_wrt (\<lambda>a b. \<not> date_lt (the (isoDate (event_date a))) (the (isoDate (event_date b))))
        (fetchAllEvents toString weightData vaccineData dewormingData) \<and>
      (\<forall>day. filter (\<lambda>e. isoDate (event_date e) = Some day)
                (fetchAllEvents toString weightData vaccineData dewormingData) =
              map (\<lambda>record. \<lparr> event_id = weight_id record, event_type = WeightEvent,
                         event_date = weight_date record,
                         event_title = toString (weight record) @ '' kg'',
                         event_description = weight_notes record, event_icon = ''Scale'',
                         event_color = ''text-blue-600 dark:text-blue-400'' \<rparr>)
                (filter (\<lambda>r. isoDate (weight_date r) = Some day) weightData) @
              map (\<lambda>record. \<lparr> event_id = vaccination_id record, event_type = VaccineEvent,
                         event_date = vaccination_date record,
                         event_title = vaccine_type record,
                         event_description = vaccination_notes record, event_icon = ''Syringe'',
                         event_color = ''text-green-600 dark:text-green-400'' \<rparr>)
                (filter (\<lambda>r. isoDate (vaccination_date r) = Some day) vaccineData) @
              map (\<lambda>record. \<lparr> event_id = deworming_id record, event_type = DewormingEvent,
                         event_date = deworming_date record,
                         event_title = deworming_type record,
                         event_description = deworming_notes record, event_icon = ''Bug'',
                         event_color = ''text-orange-600 dark:text-orange-400'' \<rparr>)
                (filter (\<lambda>r. isoDate (deworming_date r) = Some day) dewormingData))) \<and>
   map (\<lambda>e. (event_type e, event_id e, event_date e))
     (fetchAllEvents (\<lambda>n. ''12'') [exampleWeight] [exampleVaccine] [exampleDeworming]) =
   [(DewormingEvent, ''d1'', ''2024-02-01''), (WeightEvent, ''w1'', ''2024-01-10''),
    (VaccineEvent, ''v1'', ''2024-01-10'')]"
proof (rule conjI, rule impI, elim conjE)
  let ?all = "allEvents toString weightData vaccineData dewormingData"
  assume w: "\<forall>r\<in>set weightData. isoDate (weight_date r) \<noteq> None"
    and v: "\<forall>r\<in>set vaccineData. isoDate (vaccination_date r) \<noteq> None"
    and d: "\<forall>r\<in>set dewormingData. isoDate (deworming_date r) \<noteq> None"
  note iso = allEvents_dates[OF w v d, of toString]
  note t = timeline_sorted[OF iso, folded fetchAllEvents_def]
  have a: "mset ?all =
        mset (map (\<lambda>record. \<lparr> event_id = weight_id record, event_type = WeightEvent,
                         event_date = weight_date record,
                         event_title = toString (weight record) @ '' kg'',
                         event_description = weight_notes record, event_icon = ''Scale'',
                         event_color = ''text-blue-600 dark:text-blue-400'' \<rparr>) weightData @
              map (\<lambda>record. \<lparr> event_id = vaccination_id record, event_type = VaccineEvent,
                         event_date = vaccination_date record,
                         event_title = vaccine_type record,
                         event_description = vaccination_notes record, event_icon = ''Syringe'',
                         event_color = ''text-green-600 dark:text-green-400'' \<rparr>) vaccineData @
              map (\<lambda>record. \<lparr> event_id = deworming_id record, event_type = DewormingEvent,
                         event_date = deworming_date record,
                         event_title = deworming_type record,
                         event_description = deworming_notes record, event_icon = ''Bug'',
                         event_color = ''text-orange-600 dark:text-orange-400'' \<rparr>) dewormingData)"
    by (simp add: allEvents_def)
  show "mset (fetchAllEvents toString weightData vaccineData dewormingData) =
        mset (map (\<lambda>record. \<lparr> event_id = weight_id record, event_type = WeightEvent,
                         event_date = weight_date record,
                         event_title = toString (weight record) @ '' kg'',
                         event_description = weight_notes record, event_icon = ''Scale'',
                         event_color = ''text-blue-600 dark:text-blue-400'' \<rparr>) weightData @
              map (\<lambda>record. \<lparr> event_id = vaccination_id record, event_type = VaccineEvent,
                         event_date = vaccination_date record,
                         event_title = vaccine_type record,
                         event_description = vaccination_notes record, event_icon = ''Syringe'',
                         event_color = ''text-green-600 dark:text-green-400'' \<rparr>) vaccineData @
              map (\<lambda>record. \<lparr> event_id = deworming_id record, event_type = DewormingEvent,
                         event_date = deworming_date record,
                         event_title = deworming_type record,
                         event_description = deworming_notes record, event_icon = ''Bug'',
                         event_color = ''text-orange-600 dark:text-orange-400'' \<rparr>) dewormingData) \<and>
      sorted_wrt (\<lambda>a b. \<not> date_lt (the (isoDate (event_date a))) (the (isoDate (event_date b))))
        (fetchAllEvents toString weightData vaccineData dewormingData) \<and>
      (\<forall>day. filter (\<lambda>e. isoDate (event_date e) = Some day)
                (fetchAllEvents toString weightData vaccineData dewormingData) =
              map (\<lambda>record. \<lparr> event_id = weight_id record, event_type = WeightEvent,
                         event_date = weight_date record,
                         event_title = toString (weight record) @ '' kg'',
                         event_description = weight_notes record, event_icon = ''Scale'',
                         event_color = ''text-blue-600 dark:text-blue-400'' \<rparr>)
                (filter (\<lambda>r. isoDate (weight_date r) = Some day) weightData) @
              map (\<lambda>record. \<lparr> event_id = vaccination_id record, event_type = VaccineEvent,
                         event_date = vaccination_date record,
                         event_title = vaccine_type record,
                         event_description = vaccination_notes record, event_icon = ''Syringe'',
                         event_color = ''text-green-600 dark:text-green-400'' \<rparr>)
                (filter (\<lambda>r. isoDate (vaccination_date r) = Some day) vaccineData) @
              map (\<lambda>record. \<lparr> event_id = deworming_id record, event_type = DewormingEvent,
                         event_date = deworming_date record,
                         event_title = deworming_type record,
                         event_description = deworming_notes record, event_icon = ''Bug'',
                         event_color = ''text-orange-600 dark:text-orange-400'' \<rparr>)
                (filter (\<lambda>r. isoDate (deworming_date r) = Some day) dewormingData))"
    unfolding t(1) t(3) allEvents_day a using t(2) by simp
next
  show "map (\<lambda>e. (event_type e, event_id e, event_date e))
     (fetchAllEvents (\<lambda>n. ''12'') [exampleWeight] [exampleVaccine] [exampleDeworming]) =
   [(DewormingEvent, ''d1'', ''2024-02-01''), (WeightEvent, ''w1'', ''2024-01-10''),
    (VaccineEvent, ''v1'', ''2024-01-10'')]"
    by (rule example_timeline)
qed

text \<open>
  C8, witness: the three rows of the scenario have dates of the calendar; the timeline is
  sorted, and its entries of 2024-01-10 are the weight record, then the vaccine.
\<close>

theorem C8_timeline_order_witness:
  "list_all (\<lambda>r. isoDate (weight_date r) \<noteq> None) [exampleWeight] \<and>
   list_all (\<lambda>r. isoDate (vaccination_date r) \<noteq> None) [exampleVaccine] \<and>
   list_all (\<lambda>r. isoDate (deworming_date r) \<noteq> None) [exampleDeworming] \<and>
   map (\<lambda>e. (event_type e, event_id e))
     (filter (\<lambda>e. isoDate (event_date e) = Some (Date 2024 0 10))
       (fetchAllEvents (\<lambda>n. ''12'') [exampleWeight] [exampleVaccine] [exampleDeworming])) =
   [(WeightEvent, ''w1''), (VaccineEvent, ''v1'')] \<and>
   sorted_wrt (\<lambda>a b. \<not> date_lt (the (isoDate (event_date a))) (the (isoDate (event_date b))))
     (fetchAllEvents (\<lambda>n. ''12'') [exampleWeight] [exampleVaccine] [exampleDeworming])"
proof -
  have w: "list_all (\<lambda>r. isoDate (weight_date r) \<noteq> None) [exampleWeight]"
    by (simp add: exampleWeight_def iso_eval)
  have v: "list_all (\<lambda>r. isoDate (vaccination_date r) \<noteq> None) [exampleVaccine]"
    by (simp add: exampleVaccine_def iso_eval)
  have d: "list_all (\<lambda>r. isoDate (deworming_date r) \<noteq> None) [exampleDeworming]"
    by (simp add: exampleDeworming_def iso_eval)
  have h: "(\<forall>r\<in>set [exampleWeight]. isoDate (weight_date r) \<noteq> None) \<and>
    (\<forall>r\<in>set [exampleVaccine]. isoDate (vaccination_date r) \<noteq> None) \<and>
    (\<forall>r\<in>set [exampleDeworming]. isoDate (deworming_date r) \<noteq> None)"
    using w v d by (simp only: list_all_iff) 
  have fw: "filter (\<lambda>r. isoDate (weight_date r) = Some (Date 2024 0 10)) [exampleWeight] =
      [exampleWeight]"
    by (simp add: exampleWeight_def iso_eval)
  have fv: "filter (\<lambda>r. isoDate (vaccination_date r) = Some (Date 2024 0 10)) [exampleVaccine] =
      [exampleVaccine]"
    by (simp add: exampleVaccine_def iso_eval)
  have fd: "filter (\<lambda>r. isoDate (deworming_date r) = Some (Date 2024 0 10)) [exampleDeworming] =
      []"
    by (simp add: exampleDeworming_def iso_eval)
  note c = C8_timeline_order[of "[exampleWeight]" "[exampleVaccine]" "[exampleDeworming]"
      "\<lambda>n. ''12''", THEN conjunct1, THEN mp, OF h]
  from c[THEN conjunct2, THEN conjunct2, THEN spec, of "Date 2024 0 10"]
  have "map (\<lambda>e. (event_type e, event_id e))
     (filter (\<lambda>e. isoDate (event_date e) = Some (Date 2024 0 10))
       (fetchAllEvents (\<lambda>n. ''12'') [exampleWeight] [exampleVaccine] [exampleDeworming])) =
   [(WeightEvent, ''w1''), (VaccineEvent, ''v1'')]"
    unfolding fw fv fd by (simp add: exampleWeight_def exampleVaccine_def)
  with c[THEN conjunct2, THEN conjunct1] w v d
  show ?thesis by simp
qed

section \<open>The weight series\<close>

lemma allWeightRecords_set:
  assumes "find (\<lambda>p. pet_row_id p = selectedPetId) pets = Some selectedPet"
  shows "set (allWeightRecords pets selectedPetId weightRecords) =
     (case pet_weight selectedPet of
        None \<Rightarrow> {}
      | Some w \<Rightarrow>
          if \<exists>r\<in>set weightRecords. weight_date r = timestampToDateString (pet_created_at selectedPet)
          then {}
          else {\<lparr> entry_date = timestampToDateString (pet_created_at selectedPet),
                  entry_weight = w, isInitial = True, entry_id = None \<rparr>}) \<union>
     (\<lambda>record. \<lparr> entry_date = weight_date record, entry_weight = weight record,
                    isInitial = False, entry_id = Some (weight_id record) \<rparr>) ` set weightRecords"
  using assms
  by (auto simp: allWeightRecords_def set_arraySort list_ex_iff Let_def split: option.splits)

lemma filter_arraySort_length:
  "length (filter P (arraySort compare xs)) = length (filter P xs)"
proof -
  have "mset (filter P (arraySort compare xs)) = mset (filter P xs)"
    by (simp only: mset_filter mset_arraySort)
  then show ?thesis by (rule mset_eq_length)
qed

lemma filter_isInitial_records:
  "filter isInitial (map (\<lambda>record. \<lparr> entry_date = weight_date record,
      entry_weight = weight record, isInitial = False,
      entry_id = Some (weight_id record) \<rparr>) weightRecords) = []"
  by (induction weightRecords) simp_all

lemma allWeightRecords_initial_count:
  "length (filter isInitial (allWeightRecords pets selectedPetId weightRecords)) \<le> 1"
  unfolding allWeightRecords_def filter_arraySort_length filter_append filter_isInitial_records
  by (simp add: Let_def split: option.splits)

lemma split_not_Nil: "split sep s \<noteq> []"
  by (induction s) (auto split: list.splits)

lemma split_hd: "hd (split sep s) = takeWhile (\<lambda>c. c \<noteq> sep) s"
  using split_not_Nil[of sep] by (induction s) (auto split: list.splits)

lemma filter_not_isInitial_records:
  "filter (\<lambda>e. \<not> isInitial e) (map (\<lambda>record. \<lparr> entry_date = weight_date record,
      entry_weight = weight record, isInitial = False,
      entry_id = Some (weight_id record) \<rparr>) weightRecords) =
   map (\<lambda>record. \<lparr> entry_date = weight_date record,
      entry_weight = weight record, isInitial = False,
      entry_id = Some (weight_id record) \<rparr>) weightRecords"
  by (induction weightRecords) simp_all

lemma allWeightRecords_records:
  "mset (filter (\<lambda>e. \<not> isInitial e) (allWeightRecords pets selectedPetId weightRecords)) =
      mset (map (\<lambda>record. \<lparr> entry_date = weight_date record, entry_weight = weight record,
                               isInitial = False, entry_id = Some (weight_id record) \<rparr>)
              weightRecords)"
proof -
  have g: "mset (filter (\<lambda>e. \<not> isInitial e) (arraySort compare xs)) =
        mset (filter (\<lambda>e. \<not> isInitial e) xs)" for compare and xs :: "'a weightEntry list"
    by (simp only: mset_filter mset_arraySort)
  have l: "filter (\<lambda>e. \<not> isInitial e)
     ((case find (\<lambda>p. pet_row_id p = selectedPetId) pets of
           None \<Rightarrow> []
         | Some selectedPet \<Rightarrow>
             (case pet_weight selectedPet of
                None \<Rightarrow> []
              | Some w \<Rightarrow>
                  (let initialDate = timestampToDateString (pet_created_at selectedPet);
                       hasRecordOnInitialDate =
                         list_ex (\<lambda>record. weight_date record = initialDate) weightRecords
                   in if \<not> hasRecordOnInitialDate
                      then [\<lparr> entry_date = initialDate, entry_weight = w, isInitial = True,
                              entry_id = None \<rparr>]
                      else []))) @
        map (\<lambda>record. \<lparr> entry_date = weight_date record, entry_weight = weight record,
                          isInitial = False, entry_id = Some (weight_id record) \<rparr>)
          weightRecords) =
     map (\<lambda>record. \<lparr> entry_date = weight_date record, entry_weight = weight record,
                          isInitial = False, entry_id = Some (weight_id record) \<rparr>)
          weightRecords"
    unfolding filter_append filter_not_isInitial_records
    by (simp add: Let_def split: option.splits)
  show ?thesis unfolding allWeightRecords_def g l ..
qed

lemma timestampToDateString_date_part:
  "timestampToDateString timestamp = takeWhile (\<lambda>c. c \<noteq> CHR ''T'') timestamp"
  by (simp add: timestampToDateString_def split_hd)

text \<open>
  C9: for the selected pet, \<open>allWeightRecords\<close> holds a synthetic initial entry exactly when
  the pet has a weight and no weight record is dated on the day the pet was created: the
  date part of \<open>created_at\<close>, its characters before the first \<open>T\<close>. The entry then carries
  that date and the pet's weight and has no id, and there is never more than one. The other
  entries are the weight records, one entry each.
\<close>

theorem C9_initial_weight_entry:
  assumes "find (\<lambda>p. pet_row_id p = selectedPetId) pets = Some selectedPet"
  shows
   "((\<exists>e\<in>set (allWeightRecords pets selectedPetId weightRecords). isInitial e) \<longleftrightarrow>
       pet_weight selectedPet \<noteq> None \<and>
       \<not> (\<exists>r\<in>set weightRecords.
             weight_date r = takeWhile (\<lambda>c. c \<noteq> CHR ''T'') (pet_created_at selectedPet))) \<and>
    (\<forall>e\<in>set (allWeightRecords pets selectedPetId weightRecords). isInitial e \<longrightarrow>
       entry_date e = takeWhile (\<lambda>c. c \<noteq> CHR ''T'') (pet_created_at selectedPet) \<and>
       Some (entry_weight e) = pet_weight selectedPet \<and> entry_id e = None) \<and>
    length (filter isInitial (allWeightRecords pets selectedPetId weightRecords)) \<le> 1 \<and>
    mset (filter (\<lambda>e. \<not> isInitial e) (allWeightRecords pets selectedPetId weightRecords)) =
      mset (map (\<lambda>record. \<lparr> entry_date = weight_date record, entry_weight = weight record,
                               isInitial = False, entry_id = Some (weight_id record) \<rparr>)
              weightRecords)"
proof -
  note m = allWeightRecords_records[of pets selectedPetId weightRecords]
  show ?thesis
    using allWeightRecords_initial_count[of pets selectedPetId weightRecords] m
    unfolding allWeightRecords_set[OF assms] timestampToDateString_date_part
    by (auto split: option.splits if_splits)
qed

text \<open>
  C9, witness: a pet of 12 kg created at 2024-01-10T08:30:00.000Z, whose date part is
  2024-01-10. With the weight record of that day there is no initial entry; with no weight
  record there is one, dated 2024-01-10.
\<close>

theorem C9_initial_weight_entry_witness:
  "find (\<lambda>p. pet_row_id p = ''pet'') [examplePet] = Some examplePet \<and>
   pet_weight examplePet = Some 12 \<and>
   pet_created_at examplePet = ''2024-01-10T08:30:00.000Z'' \<and>
   takeWhile (\<lambda>c. c \<noteq> CHR ''T'') (pet_created_at examplePet) = ''2024-01-10'' \<and>
   weight_date exampleWeight = ''2024-01-10'' \<and>
   \<not> list_ex isInitial (allWeightRecords [examplePet] ''pet'' [exampleWeight]) \<and>
   list_ex isInitial (allWeightRecords [examplePet] ''pet'' []) \<and>
   map entry_date (filter isInitial (allWeightRecords [examplePet] ''pet'' [])) = [''2024-01-10'']"
proof -
  have f: "find (\<lambda>p. pet_row_id p = ''pet'') [examplePet] = Some examplePet"
    by (simp add: examplePet_def)
  have w: "pet_weight examplePet = Some 12" by (simp add: examplePet_def)
  have c: "pet_created_at examplePet = ''2024-01-10T08:30:00.000Z''" by (simp add: examplePet_def)
  have t: "takeWhile (\<lambda>c. c \<noteq> CHR ''T'') (pet_created_at examplePet) = ''2024-01-10''"
    by (simp add: examplePet_def)
  have d: "weight_date exampleWeight = ''2024-01-10''" by (simp add: exampleWeight_def)
  from C9_initial_weight_entry[OF f, of "[exampleWeight]", THEN conjunct1] w t d
  have 1: "\<not> list_ex isInitial (allWeightRecords [examplePet] ''pet'' [exampleWeight])"
    by (simp add: list_ex_iff)
  from C9_initial_weight_entry[OF f, of "[]", THEN conjunct1] w
  have 2: "list_ex isInitial (allWeightRecords [examplePet] ''pet'' [])"
    by (simp add: list_ex_iff)
  have 3: "map entry_date (filter isInitial (allWeightRecords [examplePet] ''pet'' [])) =
      [''2024-01-10'']"
    by (simp add: allWeightRecords_def examplePet_def timestampToDateString_def arraySort_def)
  from f w c t d 1 2 3 show ?thesis by blast
qed

section \<open>Reconciliation: what the handlers do to the reminders\<close>

lemma like_percent: "like s ''%''"
  by (induction s) (simp_all add: like.simps)

lemma like_skip_percent: "like s ps \<Longrightarrow> like s (CHR ''%'' # ps)"
  by (cases s) (simp_all add: like.simps)

lemma like_prefix: "like (label @ rest) (label @ ''%'')"
proof (induction label)
  case Nil
  show ?case by (simp add: like_percent)
next
  case (Cons p label)
  then show ?case using like_skip_percent[of "label @ rest" "label @ ''%''"]
    by (simp add: like.simps)
qed

lemma like_contains: "like (front @ label @ rest) (''%'' @ label @ ''%'')"
proof (induction front)
  case Nil
  show ?case using like_skip_percent[OF like_prefix[of label rest]] by simp
next
  case (Cons c front)
  then show ?case by (simp add: like.simps)
qed

lemma deleteReminders_logged:
  "logged db (deleteReminders petId (''%'' @ label @ ''%'') (''%'' @ marker @ ''%'') db) =
   db\<lparr>reminders := filter (\<lambda>r. \<not> selected petId label marker r) (reminders db)\<rparr>"
  by (simp add: logged_def deleteReminders_def selected_def)

lemma deleteReminders_reminders:
  "reminders (logged db (deleteReminders petId (''%'' @ label @ ''%'') (''%'' @ marker @ ''%'') db)) =
   filter (\<lambda>r. \<not> selected petId label marker r) (reminders db)"
  by (simp add: logged_def deleteReminders_def selected_def)

lemma VaccineTab_handleDelete_reminders:
  "reminders (snd (VaccineTab_handleDelete selectedPetId vaccineId label db)) =
   filter (\<lambda>r. \<not> selected selectedPetId label ''Vacuna'' r) (reminders db)"
  using deleteReminders_reminders[of db selectedPetId label "''Vacuna''"]
  by (simp add: VaccineTab_handleDelete_def deleteVaccination_def Let_def)

lemma DewormingTab_handleDelete_reminders:
  "reminders (snd (DewormingTab_handleDelete selectedPetId dewormingId label db)) =
   filter (\<lambda>r. \<not> selected selectedPetId label Desparasitacion r) (reminders db)"
  using deleteReminders_reminders[of db selectedPetId label Desparasitacion]
  by (simp add: DewormingTab_handleDelete_def deleteDeworming_def Let_def)








section \<open>The scenarios of the handlers\<close>

lemmas handler_eval =
  VaccineTab_handleSubmit_def VaccineTab_handleUpdate_def VaccineTab_handleDelete_def
  insertVaccination_def updateVaccination_def deleteVaccination_def
  insertReminders_def createReminders_def truthy_def parseInt_def
  rabiesForm_def rabiesRow_def emptyDatabase_def Let_def
  remindersToCreate_def date_eval catchUp.simps pushLoop.simps vaccineReminder_def

lemma booster_reminders:
  "reminders boosterDatabase =
   map (\<lambda>due. \<lparr> user_id = ''user'', pet_id = ''pet'', title = ''Vacuna: Rabies Booster'',
                  description = ''Recordatorio para aplicar la vacuna Rabies Booster'',
                  reminder_date = due, type = ''vaccination'' \<rparr>)
     [''2025-03-15'', ''2026-03-15'', ''2027-03-15'', ''2028-03-15'', ''2029-03-15'',
      ''2030-03-15'', ''2031-03-15'', ''2032-03-15'', ''2033-03-15'', ''2034-03-15'']"
  by (simp add: boosterDatabase_def handler_eval)

lemma refuerzo_reminders:
  "reminders refuerzoDatabase =
   map (\<lambda>due. \<lparr> user_id = ''user'', pet_id = ''pet'', title = ''Vacuna: Vacuna Rabia Refuerzo'',
                  description = ''Recordatorio para aplicar la vacuna Vacuna Rabia Refuerzo'',
                  reminder_date = due, type = ''vaccination'' \<rparr>)
     [''2025-03-15'', ''2026-03-15'', ''2027-03-15'', ''2028-03-15'', ''2029-03-15'',
      ''2030-03-15'', ''2031-03-15'', ''2032-03-15'', ''2033-03-15'', ''2034-03-15'']"
  by (simp add: refuerzoDatabase_def handler_eval)

lemma booster_like:
  "like ''Vacuna: Rabies Booster'' ''%Rabies%''"
  "\<not> like ''Recordatorio para aplicar la vacuna Rabies Booster'' ''%Vacuna%''"
  using like_contains[of "''Vacuna: ''" "''Rabies''" "'' Booster''"]
  by (simp_all add: like.simps)

lemma booster_not_selected:
  "filter (\<lambda>r. \<not> selected ''pet'' ''Rabies'' ''Vacuna'' r) (reminders boosterDatabase) =
   reminders boosterDatabase"
  by (simp add: booster_reminders selected_def booster_like)

lemma refuerzo_like:
  "like ''Vacuna: Vacuna Rabia Refuerzo'' ''%Vacuna Rabia%''"
  "like ''Recordatorio para aplicar la vacuna Vacuna Rabia Refuerzo'' ''%Vacuna%''"
  using like_contains[of "''Vacuna: ''" "''Vacuna Rabia''" "'' Refuerzo''"]
    like_contains[of "''Recordatorio para aplicar la vacuna ''" "''Vacuna''" "'' Rabia Refuerzo''"]
  by simp_all

lemma refuerzo_selected:
  "filter (\<lambda>r. \<not> selected ''pet'' ''Vacuna Rabia'' ''Vacuna'' r) (reminders refuerzoDatabase) = []"
  by (simp add: refuerzo_reminders selected_def refuerzo_like)

lemma rabies_update_on_booster:
  "map_option (map title \<circ> reminders \<circ> snd)
     (VaccineTab_handleUpdate ''pet'' (Some ''user'') (Some rabiesRow) rabiesForm (Date 2024 5 1)
        boosterDatabase) =
   Some (map title (reminders boosterDatabase) @
         [''Vacuna: Rabies'', ''Vacuna: Rabies'', ''Vacuna: Rabies'', ''Vacuna: Rabies'',
          ''Vacuna: Rabies'', ''Vacuna: Rabies'', ''Vacuna: Rabies'', ''Vacuna: Rabies'',
          ''Vacuna: Rabies'', ''Vacuna: Rabies''])"
  using deleteReminders_logged[of boosterDatabase "''pet''" "''Rabies''" "''Vacuna''"]
  by (simp add: booster_not_selected handler_eval)

lemma booster_like_lower:
  "like ''Recordatorio para aplicar la vacuna Rabies Booster'' ''%vacuna%''"
  using like_contains[of "''Recordatorio para aplicar la ''" "''vacuna''" "'' Rabies Booster''"]
  by simp




section \<open>The claims about reconciliation\<close>




text \<open>
  C10: the delete of the reconciliation on the scenario of the two vaccines "Rabies" and
  "Rabies Booster". The store holds the ten reminders of "Rabies Booster". Their titles
  contain \<open>Rabies\<close>, but their descriptions contain the word \<open>vacuna\<close> in lower case, as
  \<open>createReminders\<close> writes it, while the filter of the delete asks for \<open>%Vacuna%\<close>, and
  the store's \<open>LIKE\<close> tells the two apart. So deleting the vaccine "Rabies" leaves all ten
  reminders, and editing it leaves them too and appends its own ten. With the labels
  "Vacuna Rabia" and "Vacuna Rabia Refuerzo", where the label itself carries the capital
  word, deleting "Vacuna Rabia" removes the ten reminders of "Vacuna Rabia Refuerzo".
\<close>

theorem C10_rabies_keeps_booster_reminders:
  "map title (reminders boosterDatabase) =
     [''Vacuna: Rabies Booster'', ''Vacuna: Rabies Booster'', ''Vacuna: Rabies Booster'',
      ''Vacuna: Rabies Booster'', ''Vacuna: Rabies Booster'', ''Vacuna: Rabies Booster'',
      ''Vacuna: Rabies Booster'', ''Vacuna: Rabies Booster'', ''Vacuna: Rabies Booster'',
      ''Vacuna: Rabies Booster''] \<and>
   list_all (\<lambda>r. description r = ''Recordatorio para aplicar la vacuna Rabies Booster'')
     (reminders boosterDatabase) \<and>
   like ''Vacuna: Rabies Booster'' ''%Rabies%'' \<and>
   \<not> like ''Recordatorio para aplicar la vacuna Rabies Booster'' ''%Vacuna%'' \<and>
   like ''Recordatorio para aplicar la vacuna Rabies Booster'' ''%vacuna%'' \<and>
   fst (VaccineTab_handleDelete ''pet'' ''v1'' ''Rabies'' boosterDatabase) = Success \<and>
   reminders (snd (VaccineTab_handleDelete ''pet'' ''v1'' ''Rabies'' boosterDatabase)) =
     reminders boosterDatabase \<and>
   map_option (map title \<circ> reminders \<circ> snd)
     (VaccineTab_handleUpdate ''pet'' (Some ''user'') (Some rabiesRow) rabiesForm (Date 2024 5 1)
        boosterDatabase) =
   Some (map title (reminders boosterDatabase) @
         [''Vacuna: Rabies'', ''Vacuna: Rabies'', ''Vacuna: Rabies'', ''Vacuna: Rabies'',
          ''Vacuna: Rabies'', ''Vacuna: Rabies'', ''Vacuna: Rabies'', ''Vacuna: Rabies'',
          ''Vacuna: Rabies'', ''Vacuna: Rabies'']) \<and>
   length (reminders refuerzoDatabase) = 10 \<and>
   reminders (snd (VaccineTab_handleDelete ''pet'' ''v1'' ''Vacuna Rabia'' refuerzoDatabase)) = []"
proof (intro conjI)
  show "map title (reminders boosterDatabase) =
     [''Vacuna: Rabies Booster'', ''Vacuna: Rabies Booster'', ''Vacuna: Rabies Booster'',
      ''Vacuna: Rabies Booster'', ''Vacuna: Rabies Booster'', ''Vacuna: Rabies Booster'',
      ''Vacuna: Rabies Booster'', ''Vacuna: Rabies Booster'', ''Vacuna: Rabies Booster'',
      ''Vacuna: Rabies Booster'']"
    by (simp add: booster_reminders)
  show "list_all (\<lambda>r. description r = ''Recordatorio para aplicar la vacuna Rabies Booster'')
     (reminders boosterDatabase)"
    by (simp add: booster_reminders)
  show "like ''Vacuna: Rabies Booster'' ''%Rabies%''" by (rule booster_like(1))
  show "\<not> like ''Recordatorio para aplicar la vacuna Rabies Booster'' ''%Vacuna%''"
    by (rule booster_like(2))
  show "like ''Recordatorio para aplicar la vacuna Rabies Booster'' ''%vacuna%''"
    by (rule booster_like_lower)
  show "fst (VaccineTab_handleDelete ''pet'' ''v1'' ''Rabies'' boosterDatabase) = Success"
    by (simp add: VaccineTab_handleDelete_def deleteVaccination_def Let_def)
  show "reminders (snd (VaccineTab_handleDelete ''pet'' ''v1'' ''Rabies'' boosterDatabase)) =
     reminders boosterDatabase"
    by (simp only: VaccineTab_handleDelete_reminders booster_not_selected)
  show "map_option (map title \<circ> reminders \<circ> snd)
     (VaccineTab_handleUpdate ''pet'' (Some ''user'') (Some rabiesRow) rabiesForm (Date 2024 5 1)
        boosterDatabase) =
   Some (map title (reminders boosterDatabase) @
         [''Vacuna: Rabies'', ''Vacuna: Rabies'', ''Vacuna: Rabies'', ''Vacuna: Rabies'',
          ''Vacuna: Rabies'', ''Vacuna: Rabies'', ''Vacuna: Rabies'', ''Vacuna: Rabies'',
          ''Vacuna: Rabies'', ''Vacuna: Rabies''])"
    by (rule rabies_update_on_booster)
  show "length (reminders refuerzoDatabase) = 10" by (simp add: refuerzo_reminders)
  show "reminders (snd (VaccineTab_handleDelete ''pet'' ''v1'' ''Vacuna Rabia'' refuerzoDatabase)) = []"
    by (simp only: VaccineTab_handleDelete_reminders refuerzo_selected)
qed

end
